theory Spec2Isabelle
  imports Main "HOL-Library.Word" "HOL-Library.AList"
begin

unbundle bit_operations_syntax

section \<open>Packet codec: width masking and sign recovery\<close>

text \<open>
  The controller has no separate codec functions: the masking is the argument expression
  of each \<^verbatim>\<open>_writeN\<close> (\<^verbatim>\<open>value & 0xFF\<close>, \<^verbatim>\<open>value & 0xFFFF\<close>,
  \<^verbatim>\<open>value & 0xFFFFFFFF\<close>) and the sign recovery is the tail of \<^verbatim>\<open>_read2\<close> and
  \<^verbatim>\<open>_read4\<close>. Python integers are unbounded, so they are \<open>int\<close>; \<open>AND\<close> on \<open>int\<close>
  is the same infinite two's-complement conjunction as Python's \<^verbatim>\<open>&\<close>.
\<close>

definition write1_arg :: "int \<Rightarrow> int" where
  "write1_arg v = v AND 0xFF"

definition write2_arg :: "int \<Rightarrow> int" where
  "write2_arg v = v AND 0xFFFF"

definition write4_arg :: "int \<Rightarrow> int" where
  "write4_arg v = v AND 0xFFFFFFFF"

text \<open>\<^verbatim>\<open>_read1\<close> returns the value as the SDK delivered it.\<close>

definition read1_ret :: "int \<Rightarrow> int" where
  "read1_ret v = v"

text \<open>\<^verbatim>\<open>if value & 0x8000: value -= 0x10000\<close>\<close>

definition read2_ret :: "int \<Rightarrow> int" where
  "read2_ret v = (if v AND 0x8000 \<noteq> 0 then v - 0x10000 else v)"

text \<open>\<^verbatim>\<open>if value & 0x80000000: value -= 0x100000000\<close>\<close>

definition read4_ret :: "int \<Rightarrow> int" where
  "read4_ret v = (if v AND 0x80000000 \<noteq> 0 then v - 0x100000000 else v)"

section \<open>Python values, exceptions and text\<close>

text \<open>
  The exceptions that occur in the two modules. \<open>DynamixelError\<close> is the repository's own
  class; \<open>AttributeError\<close>, \<open>TypeError\<close> and \<open>ValueError\<close> are raised by the interpreter;
  \<open>SdkException\<close> stands for any exception raised inside a call of the serial SDK. Each
  carries its message, which is what \<^verbatim>\<open>str(e)\<close> returns.
\<close>

datatype exn =
    DynamixelError string
  | AttributeError string
  | TypeError string
  | ValueError string
  | SdkException string

fun str_exn :: "exn \<Rightarrow> string" where
  "str_exn (DynamixelError m) = m"
| "str_exn (AttributeError m) = m"
| "str_exn (TypeError m) = m"
| "str_exn (ValueError m) = m"
| "str_exn (SdkException m) = m"

text \<open>
  \<^verbatim>\<open>str(n)\<close> of an integer, as the f-strings of the source use it: the decimal digits,
  after a minus sign when \<open>n\<close> is negative.
\<close>

definition digit_char :: "int \<Rightarrow> char" where
  "digit_char d =
     (if d = 0 then CHR ''0'' else if d = 1 then CHR ''1'' else if d = 2 then CHR ''2''
      else if d = 3 then CHR ''3'' else if d = 4 then CHR ''4'' else if d = 5 then CHR ''5''
      else if d = 6 then CHR ''6'' else if d = 7 then CHR ''7'' else if d = 8 then CHR ''8''
      else CHR ''9'')"

function str_digits :: "int \<Rightarrow> string" where
  "str_digits n =
     (if n < 10 then [digit_char n] else str_digits (n div 10) @ [digit_char (n mod 10)])"
  by pat_completeness auto
termination
  by (relation "measure nat") auto

declare str_digits.simps [simp del]

definition str_int :: "int \<Rightarrow> string" where
  "str_int i = (if i < 0 then CHR ''-'' # str_digits (- i) else str_digits i)"

text \<open>A text between single quotes, as \<^verbatim>\<open>repr\<close> of a string prints it.\<close>

definition quoted :: "string \<Rightarrow> string" where
  "quoted s = CHR 0x27 # s @ [CHR 0x27]"

text \<open>\<^verbatim>\<open>repr\<close> of a list of integers: \<^verbatim>\<open>[3, 7]\<close>.\<close>

fun join_comma :: "string list \<Rightarrow> string" where
  "join_comma [] = []"
| "join_comma [x] = x"
| "join_comma (x # y # ys) = x @ '', '' @ join_comma (y # ys)"

definition repr_int_list :: "int list \<Rightarrow> string" where
  "repr_int_list xs = ''['' @ join_comma (map str_int xs) @ '']''"

definition repr_opt_int :: "int option \<Rightarrow> string" where
  "repr_opt_int v = (case v of None \<Rightarrow> ''None'' | Some i \<Rightarrow> str_int i)"

text \<open>
  A Socket.IO message is a dictionary of JSON values. Null, booleans, integers and strings
  are modelled; a key that is absent is \<open>None\<close> of the map.
\<close>

datatype jval = JNull | JBool bool | JNum int | JStr string

type_synonym message = "string \<rightharpoonup> jval"

text \<open>\<^verbatim>\<open>message.get(key)\<close> and \<^verbatim>\<open>message.get(key, default)\<close>\<close>

definition msg_get :: "message \<Rightarrow> string \<Rightarrow> jval" where
  "msg_get m k = (case m k of None \<Rightarrow> JNull | Some v \<Rightarrow> v)"

definition msg_get_default :: "message \<Rightarrow> string \<Rightarrow> jval \<Rightarrow> jval" where
  "msg_get_default m k d = (case m k of None \<Rightarrow> d | Some v \<Rightarrow> v)"

text \<open>Truth value of a Python object, as \<^verbatim>\<open>bool(x)\<close>, \<^verbatim>\<open>not x\<close> and \<^verbatim>\<open>x or y\<close> use it.\<close>

fun truthy :: "jval \<Rightarrow> bool" where
  "truthy JNull = False"
| "truthy (JBool b) = b"
| "truthy (JNum n) = (n \<noteq> 0)"
| "truthy (JStr s) = (s \<noteq> [])"

definition py_or :: "jval \<Rightarrow> jval \<Rightarrow> jval" where
  "py_or a b = (if truthy a then a else b)"

fun str_jval :: "jval \<Rightarrow> string" where
  "str_jval JNull = ''None''"
| "str_jval (JBool b) = (if b then ''True'' else ''False'')"
| "str_jval (JNum n) = str_int n"
| "str_jval (JStr s) = s"

section \<open>The environment: the serial SDK and the configuration module\<close>

text \<open>
  \<^verbatim>\<open>dynamixel_sdk\<close> and \<^verbatim>\<open>config\<close> are imported by the repository, not part of it. What
  they provide is a parameter of every function below. A \<open>PortHandler(port)\<close> object is
  identified by the port name it was made for; a reference to one may be \<^verbatim>\<open>None\<close>.
  Every call that reaches the SDK is appended to a trace, and the SDK's answer may depend on
  the whole trace so far: the bus is an arbitrary deterministic device with history.
\<close>

datatype port_handler = PortHandler string

datatype call =
    OpenPort "port_handler option"
  | SetBaudRate "port_handler option" int
  | ClosePort "port_handler option"
  | Ping "port_handler option" int
  | Read1 "port_handler option" int int
  | Read2 "port_handler option" int int
  | Read4 "port_handler option" int int
  | Write1 "port_handler option" int int int
  | Write2 "port_handler option" int int int
  | Write4 "port_handler option" int int int

type_synonym trace = "call list"

text \<open>
  \<open>closePort\<close> answers \<open>Some m\<close> when the call raises an exception with message \<open>m\<close>, and
  \<open>ping\<close> answers \<open>Inl m\<close> when it raises: these are the two SDK calls that the source
  guards with \<^verbatim>\<open>except Exception\<close>. The other calls return their documented tuples.
  \<open>int_of_str\<close> is the interpreter's \<^verbatim>\<open>int(s)\<close> on a string, \<open>None\<close> where it raises
  \<^verbatim>\<open>ValueError\<close>.
\<close>

record env =
  COMM_SUCCESS :: int
  DEFAULT_BAUDRATE :: int
  SCAN_ID_MIN :: int
  SCAN_ID_MAX :: int
  int_of_str :: "string \<Rightarrow> int option"
  openPort :: "trace \<Rightarrow> port_handler option \<Rightarrow> bool"
  setBaudRate :: "trace \<Rightarrow> port_handler option \<Rightarrow> int \<Rightarrow> bool"
  closePort :: "trace \<Rightarrow> port_handler option \<Rightarrow> string option"
  ping :: "trace \<Rightarrow> port_handler option \<Rightarrow> int \<Rightarrow> string + (int \<times> int \<times> int)"
  read1ByteTxRx :: "trace \<Rightarrow> port_handler option \<Rightarrow> int \<Rightarrow> int \<Rightarrow> int \<times> int \<times> int"
  read2ByteTxRx :: "trace \<Rightarrow> port_handler option \<Rightarrow> int \<Rightarrow> int \<Rightarrow> int \<times> int \<times> int"
  read4ByteTxRx :: "trace \<Rightarrow> port_handler option \<Rightarrow> int \<Rightarrow> int \<Rightarrow> int \<times> int \<times> int"
  write1ByteTxRx :: "trace \<Rightarrow> port_handler option \<Rightarrow> int \<Rightarrow> int \<Rightarrow> int \<Rightarrow> int \<times> int"
  write2ByteTxRx :: "trace \<Rightarrow> port_handler option \<Rightarrow> int \<Rightarrow> int \<Rightarrow> int \<Rightarrow> int \<times> int"
  write4ByteTxRx :: "trace \<Rightarrow> port_handler option \<Rightarrow> int \<Rightarrow> int \<Rightarrow> int \<Rightarrow> int \<times> int"
  getTxRxResult :: "int \<Rightarrow> string"
  getRxPacketError :: "int \<Rightarrow> string"

text \<open>
  \<^verbatim>\<open>int(x)\<close> on a message value. The message texts of the two interpreter exceptions are
  shortened; no handler prints them.
\<close>

definition py_int :: "env \<Rightarrow> jval \<Rightarrow> exn + int" where
  "py_int e v =
     (case v of
        JNull \<Rightarrow> Inl (TypeError ''int() argument must be a string or a number'')
      | JBool b \<Rightarrow> Inr (if b then 1 else 0)
      | JNum n \<Rightarrow> Inr n
      | JStr s \<Rightarrow> (case int_of_str e s of
                     None \<Rightarrow> Inl (ValueError ''invalid literal for int()'')
                   | Some n \<Rightarrow> Inr n))"

text \<open>
  A block of statements: each statement maps the state to a new state and either completes
  (\<open>None\<close>) or raises; the block stops at the first statement that raises and keeps the
  state reached so far.
\<close>

fun exec_block :: "('s \<Rightarrow> exn option \<times> 's) list \<Rightarrow> 's \<Rightarrow> exn option \<times> 's" where
  "exec_block [] s = (None, s)"
| "exec_block (a # as) s =
     (case a s of
        (Some ex, s') \<Rightarrow> (Some ex, s')
      | (None, s') \<Rightarrow> exec_block as s')"

section \<open>dynamixel\_controller.py\<close>

definition ADDR_OPERATING_MODE :: int where "ADDR_OPERATING_MODE = 11"
definition ADDR_TORQUE_ENABLE :: int where "ADDR_TORQUE_ENABLE = 64"
definition ADDR_VELOCITY_I_GAIN :: int where "ADDR_VELOCITY_I_GAIN = 76"
definition ADDR_VELOCITY_P_GAIN :: int where "ADDR_VELOCITY_P_GAIN = 78"
definition ADDR_POSITION_D_GAIN :: int where "ADDR_POSITION_D_GAIN = 80"
definition ADDR_POSITION_I_GAIN :: int where "ADDR_POSITION_I_GAIN = 82"
definition ADDR_POSITION_P_GAIN :: int where "ADDR_POSITION_P_GAIN = 84"
definition ADDR_PROFILE_ACCEL :: int where "ADDR_PROFILE_ACCEL = 108"
definition ADDR_PROFILE_VELOCITY :: int where "ADDR_PROFILE_VELOCITY = 112"
definition ADDR_GOAL_PWM :: int where "ADDR_GOAL_PWM = 100"
definition ADDR_GOAL_CURRENT :: int where "ADDR_GOAL_CURRENT = 102"
definition ADDR_GOAL_VELOCITY :: int where "ADDR_GOAL_VELOCITY = 104"
definition ADDR_GOAL_POSITION :: int where "ADDR_GOAL_POSITION = 116"
definition ADDR_PRESENT_PWM :: int where "ADDR_PRESENT_PWM = 124"
definition ADDR_PRESENT_CURRENT :: int where "ADDR_PRESENT_CURRENT = 126"
definition ADDR_PRESENT_VELOCITY :: int where "ADDR_PRESENT_VELOCITY = 128"
definition ADDR_PRESENT_POSITION :: int where "ADDR_PRESENT_POSITION = 132"
definition ADDR_MOVING :: int where "ADDR_MOVING = 122"

definition OPERATING_MODE_NAMES :: "(int \<times> string) list" where
  "OPERATING_MODE_NAMES =
     [(0, ''Current Control Mode''),
      (1, ''Velocity Control Mode''),
      (3, ''Position Control Mode''),
      (4, ''Extended Position Control Mode''),
      (5, ''Current-based Position Mode''),
      (16, ''PWM Control Mode'')]"

text \<open>
  The attributes \<^verbatim>\<open>__init__\<close> sets. \<open>port_handler\<close> is a reference that \<^verbatim>\<open>close\<close>
  compares with \<^verbatim>\<open>None\<close>; no method assigns to any attribute after construction, so
  methods take the controller and do not return it. The lock serialises the SDK calls of
  concurrent threads; one thread of calls is modelled, so it does not appear.
\<close>

record controller =
  port_name :: string
  baudrate :: int
  ids :: "int list"
  port_handler :: "port_handler option"

text \<open>
  The two checks that follow every exchange: a transport result other than
  \<^verbatim>\<open>COMM_SUCCESS\<close>, then a nonzero device status. \<open>Some m\<close> is \<^verbatim>\<open>raise DynamixelError(m)\<close>.
\<close>

definition check_result :: "env \<Rightarrow> string \<Rightarrow> string \<Rightarrow> int \<Rightarrow> int \<Rightarrow> string option" where
  "check_result e comm_prefix err_prefix dxl_comm_result dxl_error =
     (if dxl_comm_result \<noteq> COMM_SUCCESS e
        then Some (comm_prefix @ getTxRxResult e dxl_comm_result)
      else if dxl_error \<noteq> 0
        then Some (err_prefix @ getRxPacketError e dxl_error)
      else None)"

definition read_prefix :: "int \<Rightarrow> int \<Rightarrow> string" where
  "read_prefix dxl_id addr =
     ''Failed to read (ID '' @ str_int dxl_id @ '', addr '' @ str_int addr @ ''): ''"

definition write_prefix :: "int \<Rightarrow> int \<Rightarrow> string" where
  "write_prefix dxl_id addr =
     ''Failed to write (ID '' @ str_int dxl_id @ '', addr '' @ str_int addr @ ''): ''"

definition read1 :: "env \<Rightarrow> controller \<Rightarrow> int \<Rightarrow> int \<Rightarrow> trace \<Rightarrow> (exn + int) \<times> trace" where
  "read1 e c dxl_id addr tr =
     (case read1ByteTxRx e tr (port_handler c) dxl_id addr of
        (v, dxl_comm_result, dxl_error) \<Rightarrow>
          (case check_result e (read_prefix dxl_id addr) (read_prefix dxl_id addr)
                  dxl_comm_result dxl_error of
             Some m \<Rightarrow> (Inl (DynamixelError m), tr @ [Read1 (port_handler c) dxl_id addr])
           | None \<Rightarrow> (Inr (read1_ret v), tr @ [Read1 (port_handler c) dxl_id addr])))"

definition read2 :: "env \<Rightarrow> controller \<Rightarrow> int \<Rightarrow> int \<Rightarrow> trace \<Rightarrow> (exn + int) \<times> trace" where
  "read2 e c dxl_id addr tr =
     (case read2ByteTxRx e tr (port_handler c) dxl_id addr of
        (v, dxl_comm_result, dxl_error) \<Rightarrow>
          (case check_result e (read_prefix dxl_id addr) (read_prefix dxl_id addr)
                  dxl_comm_result dxl_error of
             Some m \<Rightarrow> (Inl (DynamixelError m), tr @ [Read2 (port_handler c) dxl_id addr])
           | None \<Rightarrow> (Inr (read2_ret v), tr @ [Read2 (port_handler c) dxl_id addr])))"

definition read4 :: "env \<Rightarrow> controller \<Rightarrow> int \<Rightarrow> int \<Rightarrow> trace \<Rightarrow> (exn + int) \<times> trace" where
  "read4 e c dxl_id addr tr =
     (case read4ByteTxRx e tr (port_handler c) dxl_id addr of
        (v, dxl_comm_result, dxl_error) \<Rightarrow>
          (case check_result e (read_prefix dxl_id addr) (read_prefix dxl_id addr)
                  dxl_comm_result dxl_error of
             Some m \<Rightarrow> (Inl (DynamixelError m), tr @ [Read4 (port_handler c) dxl_id addr])
           | None \<Rightarrow> (Inr (read4_ret v), tr @ [Read4 (port_handler c) dxl_id addr])))"

text \<open>The writes return nothing: \<open>None\<close> is normal completion, \<open>Some ex\<close> a raise.\<close>

definition write1 :: "env \<Rightarrow> controller \<Rightarrow> int \<Rightarrow> int \<Rightarrow> int \<Rightarrow> trace \<Rightarrow> exn option \<times> trace" where
  "write1 e c dxl_id addr v tr =
     (case write1ByteTxRx e tr (port_handler c) dxl_id addr (write1_arg v) of
        (dxl_comm_result, dxl_error) \<Rightarrow>
          (map_option DynamixelError
             (check_result e (write_prefix dxl_id addr) (write_prefix dxl_id addr)
                dxl_comm_result dxl_error),
           tr @ [Write1 (port_handler c) dxl_id addr (write1_arg v)]))"

definition write2 :: "env \<Rightarrow> controller \<Rightarrow> int \<Rightarrow> int \<Rightarrow> int \<Rightarrow> trace \<Rightarrow> exn option \<times> trace" where
  "write2 e c dxl_id addr v tr =
     (case write2ByteTxRx e tr (port_handler c) dxl_id addr (write2_arg v) of
        (dxl_comm_result, dxl_error) \<Rightarrow>
          (map_option DynamixelError
             (check_result e (write_prefix dxl_id addr) (write_prefix dxl_id addr)
                dxl_comm_result dxl_error),
           tr @ [Write2 (port_handler c) dxl_id addr (write2_arg v)]))"

definition write4 :: "env \<Rightarrow> controller \<Rightarrow> int \<Rightarrow> int \<Rightarrow> int \<Rightarrow> trace \<Rightarrow> exn option \<times> trace" where
  "write4 e c dxl_id addr v tr =
     (case write4ByteTxRx e tr (port_handler c) dxl_id addr (write4_arg v) of
        (dxl_comm_result, dxl_error) \<Rightarrow>
          (map_option DynamixelError
             (check_result e (write_prefix dxl_id addr) (write_prefix dxl_id addr)
                dxl_comm_result dxl_error),
           tr @ [Write4 (port_handler c) dxl_id addr (write4_arg v)]))"

definition get_model_number :: "env \<Rightarrow> controller \<Rightarrow> int \<Rightarrow> trace \<Rightarrow> (exn + int) \<times> trace" where
  "get_model_number e c dxl_id tr =
     (case ping e tr (port_handler c) dxl_id of
        Inl m \<Rightarrow> (Inl (SdkException m), tr @ [Ping (port_handler c) dxl_id])
      | Inr (model_number, dxl_comm_result, dxl_error) \<Rightarrow>
          (case check_result e (''Ping failed (ID '' @ str_int dxl_id @ ''): '')
                  (''Ping error (ID '' @ str_int dxl_id @ ''): '') dxl_comm_result dxl_error of
             Some m \<Rightarrow> (Inl (DynamixelError m), tr @ [Ping (port_handler c) dxl_id])
           | None \<Rightarrow> (Inr model_number, tr @ [Ping (port_handler c) dxl_id])))"

text \<open>
  The loop at the end of \<^verbatim>\<open>__init__\<close>: a \<open>DynamixelError\<close> of a ping is printed and the
  loop goes on; any other exception leaves the constructor.
\<close>

fun ping_ids :: "env \<Rightarrow> controller \<Rightarrow> int list \<Rightarrow> trace \<Rightarrow> exn option \<times> trace" where
  "ping_ids e c [] tr = (None, tr)"
| "ping_ids e c (dxl_id # rest) tr =
     (case get_model_number e c dxl_id tr of
        (Inr model, tr') \<Rightarrow> ping_ids e c rest tr'
      | (Inl (DynamixelError m), tr') \<Rightarrow> ping_ids e c rest tr'
      | (Inl ex, tr') \<Rightarrow> (Some ex, tr'))"

text \<open>\<^verbatim>\<open>DynamixelController(port, baudrate, ids)\<close>\<close>

definition DynamixelController ::
  "env \<Rightarrow> string \<Rightarrow> int \<Rightarrow> int list \<Rightarrow> trace \<Rightarrow> (exn + controller) \<times> trace" where
  "DynamixelController e port baud dxl_ids tr =
     (let self = \<lparr>port_name = port, baudrate = baud, ids = dxl_ids,
                  port_handler = Some (PortHandler port)\<rparr>;
          tr1 = tr @ [OpenPort (port_handler self)]
      in if \<not> openPort e tr (port_handler self)
           then (Inl (DynamixelError (''Failed to open port '' @ port)), tr1)
         else
           let tr2 = tr1 @ [SetBaudRate (port_handler self) baud]
           in if \<not> setBaudRate e tr1 (port_handler self) baud
                then (Inl (DynamixelError
                       (''Failed to set baudrate '' @ str_int baud @ '' on '' @ port)), tr2)
              else (case ping_ids e self (ids self) tr2 of
                      (Some ex, tr3) \<Rightarrow> (Inl ex, tr3)
                    | (None, tr3) \<Rightarrow> (Inr self, tr3)))"

definition set_torque :: "env \<Rightarrow> controller \<Rightarrow> int \<Rightarrow> bool \<Rightarrow> trace \<Rightarrow> exn option \<times> trace" where
  "set_torque e c dxl_id enable tr =
     write1 e c dxl_id ADDR_TORQUE_ENABLE (if enable then 1 else 0) tr"

text \<open>
  \<^verbatim>\<open>set_operating_mode\<close>: with \<open>auto_torque\<close> the torque is switched off first, and a
  \<open>DynamixelError\<close> of that write is passed over; then the mode is written; then, with
  \<open>auto_torque\<close>, the torque is switched on.
\<close>

definition set_operating_mode ::
  "env \<Rightarrow> controller \<Rightarrow> int \<Rightarrow> int \<Rightarrow> bool \<Rightarrow> trace \<Rightarrow> exn option \<times> trace" where
  "set_operating_mode e c dxl_id mode auto_torque tr =
     exec_block
       [\<lambda>t. if auto_torque
               then (case set_torque e c dxl_id False t of
                       (Some (DynamixelError m), t') \<Rightarrow> (None, t')
                     | r \<Rightarrow> r)
             else (None, t),
        write1 e c dxl_id ADDR_OPERATING_MODE mode,
        \<lambda>t. if auto_torque then set_torque e c dxl_id True t else (None, t)]
       tr"

text \<open>\<^verbatim>\<open>if x is not None: self._writeN(dxl_id, ADDR, x)\<close>\<close>

definition if_not_None ::
  "int option \<Rightarrow> (int \<Rightarrow> trace \<Rightarrow> exn option \<times> trace) \<Rightarrow> trace \<Rightarrow> exn option \<times> trace" where
  "if_not_None x w tr = (case x of None \<Rightarrow> (None, tr) | Some v \<Rightarrow> w v tr)"

definition set_pid ::
  "env \<Rightarrow> controller \<Rightarrow> int \<Rightarrow> int option \<Rightarrow> int option \<Rightarrow> int option \<Rightarrow> int option \<Rightarrow>
   int option \<Rightarrow> trace \<Rightarrow> exn option \<times> trace" where
  "set_pid e c dxl_id position_p position_i position_d velocity_p velocity_i tr =
     exec_block
       [if_not_None position_p (write2 e c dxl_id ADDR_POSITION_P_GAIN),
        if_not_None position_i (write2 e c dxl_id ADDR_POSITION_I_GAIN),
        if_not_None position_d (write2 e c dxl_id ADDR_POSITION_D_GAIN),
        if_not_None velocity_p (write2 e c dxl_id ADDR_VELOCITY_P_GAIN),
        if_not_None velocity_i (write2 e c dxl_id ADDR_VELOCITY_I_GAIN)]
       tr"

definition set_goals ::
  "env \<Rightarrow> controller \<Rightarrow> int \<Rightarrow> int option \<Rightarrow> int option \<Rightarrow> int option \<Rightarrow> int option \<Rightarrow>
   int option \<Rightarrow> int option \<Rightarrow> trace \<Rightarrow> exn option \<times> trace" where
  "set_goals e c dxl_id goal_position goal_velocity goal_current goal_pwm profile_velocity
     profile_accel tr =
     exec_block
       [if_not_None profile_accel (write4 e c dxl_id ADDR_PROFILE_ACCEL),
        if_not_None profile_velocity (write4 e c dxl_id ADDR_PROFILE_VELOCITY),
        if_not_None goal_pwm (write2 e c dxl_id ADDR_GOAL_PWM),
        if_not_None goal_current (write2 e c dxl_id ADDR_GOAL_CURRENT),
        if_not_None goal_velocity (write4 e c dxl_id ADDR_GOAL_VELOCITY),
        if_not_None goal_position (write4 e c dxl_id ADDR_GOAL_POSITION)]
       tr"

text \<open>
  The telemetry dictionary of \<^verbatim>\<open>read_state\<close>: string keys, values that are integers,
  booleans or strings, kept in insertion order as a Python \<^verbatim>\<open>dict\<close> keeps them.
  \<open>AList.update\<close> is \<^verbatim>\<open>d[k] = v\<close>: it replaces the value of a key that is present and
  appends a new key at the end.
\<close>

datatype pyval = PInt int | PBool bool | PStr string

type_synonym state = "(string \<times> pyval) list"

text \<open>\<^verbatim>\<open>state[key] = conv(self._readN(dxl_id, addr))\<close>, as a statement on dictionary and trace.\<close>

definition assign ::
  "string \<Rightarrow> (int \<Rightarrow> pyval) \<Rightarrow> (trace \<Rightarrow> (exn + int) \<times> trace) \<Rightarrow> state \<times> trace \<Rightarrow>
   exn option \<times> (state \<times> trace)" where
  "assign key conv rd s =
     (case rd (snd s) of
        (Inl ex, tr') \<Rightarrow> (Some ex, (fst s, tr'))
      | (Inr v, tr') \<Rightarrow> (None, (AList.update key (conv v) (fst s), tr')))"

text \<open>
  \<^verbatim>\<open>mode = state.get("operating_mode", 0)\<close> and
  \<^verbatim>\<open>state["operating_mode_name"] = OPERATING_MODE_NAMES.get(mode, f"Mode {mode}")\<close>
\<close>

definition assign_mode_name :: "state \<times> trace \<Rightarrow> exn option \<times> (state \<times> trace)" where
  "assign_mode_name s =
     (let mode = (case map_of (fst s) ''operating_mode'' of Some (PInt m) \<Rightarrow> m | _ \<Rightarrow> 0);
          name = (case map_of OPERATING_MODE_NAMES mode of
                    Some n \<Rightarrow> n
                  | None \<Rightarrow> ''Mode '' @ str_int mode)
      in (None, (AList.update ''operating_mode_name'' (PStr name) (fst s), snd s)))"

text \<open>The body of the \<^verbatim>\<open>try\<close> of \<^verbatim>\<open>read_state\<close>, statement by statement.\<close>

definition read_state_body ::
  "env \<Rightarrow> controller \<Rightarrow> int \<Rightarrow> (state \<times> trace \<Rightarrow> exn option \<times> (state \<times> trace)) list" where
  "read_state_body e c dxl_id =
     [assign ''operating_mode'' PInt (read1 e c dxl_id ADDR_OPERATING_MODE),
      assign ''torque_enabled'' (\<lambda>v. PBool (v \<noteq> 0)) (read1 e c dxl_id ADDR_TORQUE_ENABLE),
      assign ''present_pwm'' PInt (read2 e c dxl_id ADDR_PRESENT_PWM),
      assign ''present_current'' PInt (read2 e c dxl_id ADDR_PRESENT_CURRENT),
      assign ''present_velocity'' PInt (read4 e c dxl_id ADDR_PRESENT_VELOCITY),
      assign ''present_position'' PInt (read4 e c dxl_id ADDR_PRESENT_POSITION),
      assign ''moving'' (\<lambda>v. PBool (v \<noteq> 0)) (read1 e c dxl_id ADDR_MOVING),
      assign_mode_name]"

text \<open>
  \<^verbatim>\<open>read_state\<close>: the dictionary starts empty before the \<^verbatim>\<open>try\<close>; the handler of
  \<open>DynamixelError\<close> stores the message under \<^verbatim>\<open>"error"\<close> in that same dictionary, which
  is then returned. Another exception leaves the method.
\<close>

definition read_state :: "env \<Rightarrow> controller \<Rightarrow> int \<Rightarrow> trace \<Rightarrow> (exn + state) \<times> trace" where
  "read_state e c dxl_id tr =
     (case exec_block (read_state_body e c dxl_id) ([], tr) of
        (None, (st, tr')) \<Rightarrow> (Inr st, tr')
      | (Some (DynamixelError m), (st, tr')) \<Rightarrow> (Inr (AList.update ''error'' (PStr m) st), tr')
      | (Some ex, (st, tr')) \<Rightarrow> (Inl ex, tr'))"

text \<open>\<^verbatim>\<open>for dxl_id in self.ids: result[dxl_id] = self.read_state(dxl_id)\<close>\<close>

fun read_all_loop ::
  "env \<Rightarrow> controller \<Rightarrow> int list \<Rightarrow> (int \<times> state) list \<Rightarrow> trace \<Rightarrow>
   (exn + (int \<times> state) list) \<times> trace" where
  "read_all_loop e c [] result tr = (Inr result, tr)"
| "read_all_loop e c (dxl_id # rest) result tr =
     (case read_state e c dxl_id tr of
        (Inl ex, tr') \<Rightarrow> (Inl ex, tr')
      | (Inr st, tr') \<Rightarrow> read_all_loop e c rest (AList.update dxl_id st result) tr')"

definition read_all :: "env \<Rightarrow> controller \<Rightarrow> trace \<Rightarrow> (exn + (int \<times> state) list) \<times> trace" where
  "read_all e c tr = read_all_loop e c (ids c) [] tr"

definition read_all_states ::
  "env \<Rightarrow> controller \<Rightarrow> trace \<Rightarrow> (exn + (int \<times> state) list) \<times> trace" where
  "read_all_states e c tr = read_all e c tr"

text \<open>
  \<^verbatim>\<open>close\<close>: when the reference is not \<^verbatim>\<open>None\<close>, \<open>closePort\<close> is called and an exception of
  it is passed over. Nothing is assigned to \<open>port_handler\<close>.
\<close>

definition close :: "env \<Rightarrow> controller \<Rightarrow> trace \<Rightarrow> exn option \<times> trace" where
  "close e c tr =
     (if port_handler c \<noteq> None
        then (case closePort e tr (port_handler c) of
                Some m \<Rightarrow> (None, tr @ [ClosePort (port_handler c)])
              | None \<Rightarrow> (None, tr @ [ClosePort (port_handler c)]))
      else (None, tr))"

text \<open>
  The attributes of a controller object: what \<^verbatim>\<open>__init__\<close> sets and the methods the
  class body defines after \<^verbatim>\<open>__init__\<close> (the special attributes every object inherits
  are not listed). A method is entered here as it is called with positional integer
  arguments; a value it returns is dropped.
\<close>

definition instance_attributes :: "string list" where
  "instance_attributes =
     [''port_name'', ''baudrate'', ''ids'', ''port_handler'', ''packet_handler'', ''lock'']"

definition discard :: "(exn + 'a) \<times> trace \<Rightarrow> exn option \<times> trace" where
  "discard r = (case r of (Inl ex, t) \<Rightarrow> (Some ex, t) | (Inr v, t) \<Rightarrow> (None, t))"

definition signature_error :: exn where
  "signature_error = TypeError ''arguments do not match the signature''"

definition opt_arg :: "int list \<Rightarrow> nat \<Rightarrow> int option" where
  "opt_arg args k = (if k < length args then Some (args ! k) else None)"

type_synonym bound_method = "env \<Rightarrow> controller \<Rightarrow> int list \<Rightarrow> trace \<Rightarrow> exn option \<times> trace"

definition class_methods :: "(string \<times> bound_method) list" where
  "class_methods =
     [(''_read1'', \<lambda>e c args tr. case args of
          [i, a] \<Rightarrow> discard (read1 e c i a tr) | _ \<Rightarrow> (Some signature_error, tr)),
      (''_read2'', \<lambda>e c args tr. case args of
          [i, a] \<Rightarrow> discard (read2 e c i a tr) | _ \<Rightarrow> (Some signature_error, tr)),
      (''_read4'', \<lambda>e c args tr. case args of
          [i, a] \<Rightarrow> discard (read4 e c i a tr) | _ \<Rightarrow> (Some signature_error, tr)),
      (''_write1'', \<lambda>e c args tr. case args of
          [i, a, v] \<Rightarrow> write1 e c i a v tr | _ \<Rightarrow> (Some signature_error, tr)),
      (''_write2'', \<lambda>e c args tr. case args of
          [i, a, v] \<Rightarrow> write2 e c i a v tr | _ \<Rightarrow> (Some signature_error, tr)),
      (''_write4'', \<lambda>e c args tr. case args of
          [i, a, v] \<Rightarrow> write4 e c i a v tr | _ \<Rightarrow> (Some signature_error, tr)),
      (''get_model_number'', \<lambda>e c args tr. case args of
          [i] \<Rightarrow> discard (get_model_number e c i tr) | _ \<Rightarrow> (Some signature_error, tr)),
      (''set_torque'', \<lambda>e c args tr. case args of
          [i, en] \<Rightarrow> set_torque e c i (en \<noteq> 0) tr | _ \<Rightarrow> (Some signature_error, tr)),
      (''set_operating_mode'', \<lambda>e c args tr. case args of
          [i, m] \<Rightarrow> set_operating_mode e c i m True tr
        | [i, m, a] \<Rightarrow> set_operating_mode e c i m (a \<noteq> 0) tr
        | _ \<Rightarrow> (Some signature_error, tr)),
      (''set_pid'', \<lambda>e c args tr.
          if 1 \<le> length args \<and> length args \<le> 6
            then set_pid e c (hd args) (opt_arg args 1) (opt_arg args 2) (opt_arg args 3)
                   (opt_arg args 4) (opt_arg args 5) tr
          else (Some signature_error, tr)),
      (''set_goals'', \<lambda>e c args tr.
          if 1 \<le> length args \<and> length args \<le> 7
            then set_goals e c (hd args) (opt_arg args 1) (opt_arg args 2) (opt_arg args 3)
                   (opt_arg args 4) (opt_arg args 5) (opt_arg args 6) tr
          else (Some signature_error, tr)),
      (''read_state'', \<lambda>e c args tr. case args of
          [i] \<Rightarrow> discard (read_state e c i tr) | _ \<Rightarrow> (Some signature_error, tr)),
      (''read_all'', \<lambda>e c args tr. case args of
          [] \<Rightarrow> discard (read_all e c tr) | _ \<Rightarrow> (Some signature_error, tr)),
      (''read_all_states'', \<lambda>e c args tr. case args of
          [] \<Rightarrow> discard (read_all_states e c tr) | _ \<Rightarrow> (Some signature_error, tr)),
      (''close'', \<lambda>e c args tr. case args of
          [] \<Rightarrow> close e c tr | _ \<Rightarrow> (Some signature_error, tr))]"

text \<open>
  \<^verbatim>\<open>controller.name(args)\<close> where \<open>name\<close> is looked up on the object when the call is
  made: an instance attribute is not callable, a name that is neither an instance attribute
  nor a method of the class raises \<open>AttributeError\<close>.
\<close>

definition call_method ::
  "env \<Rightarrow> controller \<Rightarrow> string \<Rightarrow> int list \<Rightarrow> trace \<Rightarrow> exn option \<times> trace" where
  "call_method e c name args tr =
     (if name \<in> set instance_attributes
        then (Some (TypeError (''object is not callable: '' @ name)), tr)
      else (case map_of class_methods name of
              Some m \<Rightarrow> m e c args tr
            | None \<Rightarrow>
                (Some (AttributeError
                   (quoted ''DynamixelController'' @ '' object has no attribute ''
                    @ quoted name)), tr)))"

section \<open>app.py\<close>

text \<open>
  The module's globals: the active controller, the connection metadata and the last error
  message. \<open>dxl_lock\<close> guards them against other threads and does not appear here.
\<close>

record conn_info =
  info_port :: "string option"
  info_baudrate :: "int option"
  info_ids :: "int list"

record app =
  dxl :: "controller option"
  connection_info :: conn_info
  dxl_error_message :: "string option"

text \<open>
  \<^verbatim>\<open>connect_controller\<close>. The ids are integers already, on which \<^verbatim>\<open>int(i)\<close> is the
  identity. A previous controller is closed inside \<^verbatim>\<open>try ... except Exception: pass\<close>,
  so the outcome of \<open>close\<close> is dropped, and the global is cleared before the new
  controller is constructed.
\<close>

definition connect_controller ::
  "env \<Rightarrow> string \<Rightarrow> int \<Rightarrow> int list \<Rightarrow> app \<Rightarrow> trace \<Rightarrow> (bool \<times> string) \<times> app \<times> trace" where
  "connect_controller e port baud dxl_ids g tr =
     (let (g1, tr1) = (case dxl g of
                         Some old \<Rightarrow> (g\<lparr>dxl := None\<rparr>, snd (close e old tr))
                       | None \<Rightarrow> (g, tr))
      in case DynamixelController e port baud dxl_ids tr1 of
           (Inr ctl, tr2) \<Rightarrow>
             ((True, ''Connected successfully.''),
              g1\<lparr>dxl := Some ctl,
                 connection_info := \<lparr>info_port = Some port, info_baudrate = Some baud,
                                      info_ids = dxl_ids\<rparr>,
                 dxl_error_message := None\<rparr>,
              tr2)
         | (Inl ex, tr2) \<Rightarrow>
             ((False, ''Failed to connect: '' @ str_exn ex),
              g1\<lparr>dxl := None, dxl_error_message := Some (str_exn ex)\<rparr>,
              tr2))"


text \<open>
  What a handler emits. A \<^verbatim>\<open>scan_result\<close> carries \<open>ok\<close>, \<open>message\<close> and \<open>ids\<close>, and on
  a completed sweep also \<open>port\<close>, \<open>baudrate\<close>, \<open>idMin\<close> and \<open>idMax\<close>.
\<close>

datatype emitted =
    Scan_result bool string "int list" "(jval \<times> int \<times> int \<times> int) option"
  | Log string string
  | Backend_error string

text \<open>
  The sweep of \<^verbatim>\<open>handle_scan_servos\<close>: an id is appended when the ping returns with
  \<open>COMM_SUCCESS\<close> and status 0; a ping that raises is passed over by \<^verbatim>\<open>continue\<close>.
\<close>

fun scan_loop ::
  "env \<Rightarrow> port_handler option \<Rightarrow> int list \<Rightarrow> int list \<Rightarrow> trace \<Rightarrow> int list \<times> trace" where
  "scan_loop e h [] found_ids tr = (found_ids, tr)"
| "scan_loop e h (dxl_id # rest) found_ids tr =
     (case ping e tr h dxl_id of
        Inl m \<Rightarrow> scan_loop e h rest found_ids (tr @ [Ping h dxl_id])
      | Inr (model_number, dxl_comm_result, dxl_error) \<Rightarrow>
          if dxl_comm_result = COMM_SUCCESS e \<and> dxl_error = 0
            then scan_loop e h rest (found_ids @ [dxl_id]) (tr @ [Ping h dxl_id])
          else scan_loop e h rest found_ids (tr @ [Ping h dxl_id]))"

text \<open>The body of the outer \<^verbatim>\<open>try\<close> of the scan, from \<open>openPort\<close> to the emit.\<close>

definition scan_body ::
  "env \<Rightarrow> port_handler option \<Rightarrow> jval \<Rightarrow> int \<Rightarrow> int \<Rightarrow> int \<Rightarrow> trace \<Rightarrow> emitted list \<times> trace"
  where
  "scan_body e h port baud id_min id_max tr =
     (let tr1 = tr @ [OpenPort h]
      in if \<not> openPort e tr h
           then ([Scan_result False (''Failed to open port '' @ str_jval port) [] None], tr1)
         else
           let tr2 = tr1 @ [SetBaudRate h baud]
           in if \<not> setBaudRate e tr1 h baud
                then ([Scan_result False (''Failed to set baudrate '' @ str_int baud) [] None],
                      tr2)
              else
                (case scan_loop e h [id_min..id_max] [] tr2 of
                   (found_ids, tr3) \<Rightarrow>
                     let msg = (if found_ids \<noteq> []
                                  then ''Found IDs: '' @ repr_int_list found_ids
                                else ''No servos responded on '' @ str_jval port @ '' @ ''
                                     @ str_int baud @ '' in range '' @ str_int id_min
                                     @ ''-'' @ str_int id_max @ ''.'')
                     in ([Scan_result True msg found_ids (Some (port, baud, id_min, id_max))],
                         tr3)))"

text \<open>
  The numeric inputs of \<^verbatim>\<open>handle_scan_servos\<close>. A baud rate that \<^verbatim>\<open>int\<close> rejects falls
  back to the default; when either bound is rejected both fall back; a reversed range is
  swapped.
\<close>

definition scan_baudrate :: "env \<Rightarrow> message \<Rightarrow> int" where
  "scan_baudrate e message =
     (case py_int e (py_or (msg_get message ''baudrate'') (JNum (DEFAULT_BAUDRATE e))) of
        Inl ex \<Rightarrow> DEFAULT_BAUDRATE e
      | Inr b \<Rightarrow> b)"

definition scan_bounds :: "env \<Rightarrow> message \<Rightarrow> int \<times> int" where
  "scan_bounds e message =
     (let bounds = (case py_int e (py_or (msg_get message ''idMin'')
                                      (JNum (SCAN_ID_MIN e))) of
                      Inl ex \<Rightarrow> (SCAN_ID_MIN e, SCAN_ID_MAX e)
                    | Inr lo \<Rightarrow>
                        (case py_int e (py_or (msg_get message ''idMax'')
                                          (JNum (SCAN_ID_MAX e))) of
                           Inl ex \<Rightarrow> (SCAN_ID_MIN e, SCAN_ID_MAX e)
                         | Inr hi \<Rightarrow> (lo, hi)))
      in if fst bounds > snd bounds then (snd bounds, fst bounds) else bounds)"

text \<open>
  \<^verbatim>\<open>handle_scan_servos\<close>. The handle is made for the port as the message gave it. The
  \<^verbatim>\<open>finally\<close> closes the port, passing over an exception of \<open>closePort\<close>.
\<close>

definition handle_scan_servos :: "env \<Rightarrow> message \<Rightarrow> trace \<Rightarrow> emitted list \<times> trace" where
  "handle_scan_servos e message tr =
     (let port = msg_get message ''port''
      in if \<not> truthy port
           then ([Scan_result False ''No port specified.'' [] None], tr)
         else
           let baud = scan_baudrate e message;
               id_min = fst (scan_bounds e message);
               id_max = snd (scan_bounds e message);
               h = Some (PortHandler (str_jval port))
           in (case scan_body e h port baud id_min id_max tr of
                 (out, tr') \<Rightarrow> (out, tr' @ [ClosePort h])))"

text \<open>
  The command handlers return what they emit, the exception that leaves the handler if one
  does, and the trace. \<open>on_value\<close> is a conversion made before the \<^verbatim>\<open>try\<close>: when it
  raises, the exception leaves the handler and nothing is emitted.
\<close>

type_synonym outcome = "emitted list \<times> exn option \<times> trace"

definition on_value :: "exn + 'a \<Rightarrow> trace \<Rightarrow> ('a \<Rightarrow> outcome) \<Rightarrow> outcome" where
  "on_value r tr k = (case r of Inl ex \<Rightarrow> ([], Some ex, tr) | Inr v \<Rightarrow> k v)"

definition not_connected :: "trace \<Rightarrow> outcome" where
  "not_connected tr = ([Backend_error ''Not connected to any Dynamixel bus.''], None, tr)"

definition handle_set_operating_mode :: "env \<Rightarrow> app \<Rightarrow> message \<Rightarrow> trace \<Rightarrow> outcome" where
  "handle_set_operating_mode e g message tr =
     (case dxl g of
        None \<Rightarrow> not_connected tr
      | Some ctl \<Rightarrow>
          on_value (py_int e (msg_get message ''id'')) tr (\<lambda>dxl_id.
          on_value (py_int e (msg_get message ''mode'')) tr (\<lambda>mode.
            let auto_torque = truthy (msg_get_default message ''autoTorque'' (JBool True))
            in case set_operating_mode e ctl dxl_id mode auto_torque tr of
                 (None, tr') \<Rightarrow>
                   ([Log ''info'' (''ID '' @ str_int dxl_id @ '': set operating mode to ''
                                   @ str_int mode)], None, tr')
               | (Some (DynamixelError m), tr') \<Rightarrow>
                   ([Log ''error'' (''Failed to set operating mode on ID '' @ str_int dxl_id
                                    @ '': '' @ m)], None, tr')
               | (Some (ValueError m), tr') \<Rightarrow>
                   ([Log ''error'' (''Failed to set operating mode on ID '' @ str_int dxl_id
                                    @ '': '' @ m)], None, tr')
               | (Some ex, tr') \<Rightarrow> ([], Some ex, tr'))))"

definition handle_set_torque :: "env \<Rightarrow> app \<Rightarrow> message \<Rightarrow> trace \<Rightarrow> outcome" where
  "handle_set_torque e g message tr =
     (case dxl g of
        None \<Rightarrow> not_connected tr
      | Some ctl \<Rightarrow>
          on_value (py_int e (msg_get message ''id'')) tr (\<lambda>dxl_id.
            let enable = truthy (msg_get message ''enable'')
            in case set_torque e ctl dxl_id enable tr of
                 (None, tr') \<Rightarrow>
                   ([Log ''info'' (''ID '' @ str_int dxl_id @ '': torque ''
                                   @ (if enable then ''ON'' else ''OFF''))], None, tr')
               | (Some (DynamixelError m), tr') \<Rightarrow>
                   ([Log ''error'' (''Failed to set torque on ID '' @ str_int dxl_id
                                    @ '': '' @ m)], None, tr')
               | (Some ex, tr') \<Rightarrow> ([], Some ex, tr')))"

text \<open>
  \<^verbatim>\<open>handle_set_pid\<close> calls \<^verbatim>\<open>controller.set_position_pid_gains\<close> and
  \<^verbatim>\<open>controller.set_velocity_pi_gains\<close>, and catches \<open>DynamixelError\<close> only.
\<close>

definition handle_set_pid :: "env \<Rightarrow> app \<Rightarrow> message \<Rightarrow> trace \<Rightarrow> outcome" where
  "handle_set_pid e g message tr =
     (case dxl g of
        None \<Rightarrow> not_connected tr
      | Some ctl \<Rightarrow>
          on_value (py_int e (msg_get message ''id'')) tr (\<lambda>dxl_id.
          on_value (py_int e (msg_get_default message ''P'' (JNum 0))) tr (\<lambda>p_p.
          on_value (py_int e (msg_get_default message ''I'' (JNum 0))) tr (\<lambda>p_i.
          on_value (py_int e (msg_get_default message ''D'' (JNum 0))) tr (\<lambda>p_d.
          on_value (py_int e (msg_get_default message ''velocityP'' (JNum 0))) tr (\<lambda>v_p.
          on_value (py_int e (msg_get_default message ''velocityI'' (JNum 0))) tr (\<lambda>v_i.
            case exec_block
                   [call_method e ctl ''set_position_pid_gains'' [dxl_id, p_p, p_i, p_d],
                    call_method e ctl ''set_velocity_pi_gains'' [dxl_id, v_p, v_i]] tr of
              (None, tr') \<Rightarrow>
                ([Log ''info'' (''ID '' @ str_int dxl_id @ '': updated PID gains'')], None, tr')
            | (Some (DynamixelError m), tr') \<Rightarrow>
                ([Log ''error'' (''Failed to set PID gains on ID '' @ str_int dxl_id
                                 @ '': '' @ m)], None, tr')
            | (Some ex, tr') \<Rightarrow> ([], Some ex, tr'))))))))"

text \<open>
  \<^verbatim>\<open>maybe_int\<close> of \<^verbatim>\<open>handle_set_goals\<close>: \<^verbatim>\<open>None\<close>, the empty string and \<^verbatim>\<open>False\<close>
  give \<^verbatim>\<open>None\<close>, anything else goes through \<^verbatim>\<open>int\<close>.
\<close>

definition maybe_int :: "env \<Rightarrow> message \<Rightarrow> string \<Rightarrow> exn + int option" where
  "maybe_int e message key =
     (let v = msg_get message key
      in if v = JNull \<or> v = JStr [] \<or> v = JBool False then Inr None
         else (case py_int e v of Inl ex \<Rightarrow> Inl ex | Inr n \<Rightarrow> Inr (Some n)))"

definition repr_kwargs ::
  "int option \<Rightarrow> int option \<Rightarrow> int option \<Rightarrow> int option \<Rightarrow> int option \<Rightarrow> int option \<Rightarrow> string"
  where
  "repr_kwargs gp gv gc gpwm pv pa =
     ''{'' @ quoted ''goal_position'' @ '': '' @ repr_opt_int gp
     @ '', '' @ quoted ''goal_velocity'' @ '': '' @ repr_opt_int gv
     @ '', '' @ quoted ''goal_current'' @ '': '' @ repr_opt_int gc
     @ '', '' @ quoted ''goal_pwm'' @ '': '' @ repr_opt_int gpwm
     @ '', '' @ quoted ''profile_velocity'' @ '': '' @ repr_opt_int pv
     @ '', '' @ quoted ''profile_accel'' @ '': '' @ repr_opt_int pa @ ''}''"

definition handle_set_goals :: "env \<Rightarrow> app \<Rightarrow> message \<Rightarrow> trace \<Rightarrow> outcome" where
  "handle_set_goals e g message tr =
     (case dxl g of
        None \<Rightarrow> not_connected tr
      | Some ctl \<Rightarrow>
          on_value (py_int e (msg_get message ''id'')) tr (\<lambda>dxl_id.
          on_value (maybe_int e message ''goalPosition'') tr (\<lambda>gp.
          on_value (maybe_int e message ''goalVelocity'') tr (\<lambda>gv.
          on_value (maybe_int e message ''goalCurrent'') tr (\<lambda>gc.
          on_value (maybe_int e message ''goalPwm'') tr (\<lambda>gpwm.
          on_value (maybe_int e message ''profileVelocity'') tr (\<lambda>pv.
          on_value (maybe_int e message ''profileAccel'') tr (\<lambda>pa.
            case set_goals e ctl dxl_id gp gv gc gpwm pv pa tr of
              (None, tr') \<Rightarrow>
                ([Log ''info'' (''ID '' @ str_int dxl_id @ '': updated goals ''
                                @ repr_kwargs gp gv gc gpwm pv pa)], None, tr')
            | (Some (DynamixelError m), tr') \<Rightarrow>
                ([Log ''error'' (''Failed to set goals on ID '' @ str_int dxl_id
                                 @ '': '' @ m)], None, tr')
            | (Some ex, tr') \<Rightarrow> ([], Some ex, tr')))))))))"

section \<open>Concrete buses\<close>

text \<open>
  Environments on which the statements below are evaluated. On \<open>bus_ok\<close> every exchange
  succeeds: a one-byte read returns 3, a two-byte read 65531 (which is \<open>-5\<close> after sign
  recovery), a four-byte read 100.
\<close>

definition bus_ok :: env where
  "bus_ok =
     \<lparr>COMM_SUCCESS = 0, DEFAULT_BAUDRATE = 57600, SCAN_ID_MIN = 1, SCAN_ID_MAX = 20,
      int_of_str = (\<lambda>s. None),
      openPort = (\<lambda>tr h. True),
      setBaudRate = (\<lambda>tr h b. True),
      closePort = (\<lambda>tr h. None),
      ping = (\<lambda>tr h i. Inr (1200, 0, 0)),
      read1ByteTxRx = (\<lambda>tr h i a. (3, 0, 0)),
      read2ByteTxRx = (\<lambda>tr h i a. (65531, 0, 0)),
      read4ByteTxRx = (\<lambda>tr h i a. (100, 0, 0)),
      write1ByteTxRx = (\<lambda>tr h i a v. (0, 0)),
      write2ByteTxRx = (\<lambda>tr h i a v. (0, 0)),
      write4ByteTxRx = (\<lambda>tr h i a v. (0, 0)),
      getTxRxResult = (\<lambda>r. ''no status packet''),
      getRxPacketError = (\<lambda>r. ''hardware error'')\<rparr>"

text \<open>The register at address \<open>a\<close> answers every access with device status 1.\<close>

definition bus_fault_at :: "int \<Rightarrow> env" where
  "bus_fault_at a =
     bus_ok\<lparr>read1ByteTxRx := (\<lambda>tr h i x. if x = a then (0, 0, 1) else (3, 0, 0)),
            read2ByteTxRx := (\<lambda>tr h i x. if x = a then (0, 0, 1) else (65531, 0, 0)),
            read4ByteTxRx := (\<lambda>tr h i x. if x = a then (0, 0, 1) else (100, 0, 0)),
            write1ByteTxRx := (\<lambda>tr h i x v. if x = a then (0, 1) else (0, 0)),
            write2ByteTxRx := (\<lambda>tr h i x v. if x = a then (0, 1) else (0, 0)),
            write4ByteTxRx := (\<lambda>tr h i x v. if x = a then (0, 1) else (0, 0))\<rparr>"

text \<open>The device with id \<open>d\<close> answers every read with device status 1.\<close>

definition bus_fault_of :: "int \<Rightarrow> env" where
  "bus_fault_of d =
     bus_ok\<lparr>read1ByteTxRx := (\<lambda>tr h i x. if i = d then (0, 0, 1) else (3, 0, 0)),
            read2ByteTxRx := (\<lambda>tr h i x. if i = d then (0, 0, 1) else (65531, 0, 0)),
            read4ByteTxRx := (\<lambda>tr h i x. if i = d then (0, 0, 1) else (100, 0, 0))\<rparr>"

text \<open>
  Only the ids in \<open>present\<close> answer a ping. Of the others, id 1 makes the SDK raise, an
  even id gives a transport failure and an odd id a device status. \<open>closePort\<close> raises.
\<close>

definition bus_with :: "int list \<Rightarrow> env" where
  "bus_with present =
     bus_ok\<lparr>closePort := (\<lambda>tr h. Some ''port is gone''),
            ping := (\<lambda>tr h i. if i \<in> set present then Inr (1200, 0, 0)
                              else if i = 1 then Inl ''serial timeout''
                              else if even i then Inr (0, - 3001, 0)
                              else Inr (0, 0, 128))\<rparr>"

text \<open>A bus on which the port cannot be opened.\<close>

definition bus_closed :: env where
  "bus_closed = bus_ok\<lparr>openPort := (\<lambda>tr h. False)\<rparr>"

definition ctl_A :: controller where
  "ctl_A = \<lparr>port_name = ''COM1'', baudrate = 57600, ids = [1, 2],
            port_handler = Some (PortHandler ''COM1'')\<rparr>"

definition ctl_B :: controller where
  "ctl_B = \<lparr>port_name = ''COM1'', baudrate = 57600, ids = [2, 1],
            port_handler = Some (PortHandler ''COM1'')\<rparr>"

definition app_A :: app where
  "app_A = \<lparr>dxl = Some ctl_A,
            connection_info = \<lparr>info_port = Some ''COM1'', info_baudrate = Some 57600,
                                 info_ids = [1, 2]\<rparr>,
            dxl_error_message = None\<rparr>"

text \<open>
  What a device that answers every read yields on these buses, and the seven exchanges
  that reading device \<open>i\<close> through the handle of \<^verbatim>\<open>COM1\<close> puts on the trace.
\<close>

definition state_ok :: state where
  "state_ok =
     [(''operating_mode'', PInt 3), (''torque_enabled'', PBool True),
      (''present_pwm'', PInt (- 5)), (''present_current'', PInt (- 5)),
      (''present_velocity'', PInt 100), (''present_position'', PInt 100),
      (''moving'', PBool True), (''operating_mode_name'', PStr ''Position Control Mode'')]"

definition reads_of :: "int \<Rightarrow> trace" where
  "reads_of i =
     [Read1 (Some (PortHandler ''COM1'')) i 11, Read1 (Some (PortHandler ''COM1'')) i 64,
      Read2 (Some (PortHandler ''COM1'')) i 124, Read2 (Some (PortHandler ''COM1'')) i 126,
      Read4 (Some (PortHandler ''COM1'')) i 128, Read4 (Some (PortHandler ''COM1'')) i 132,
      Read1 (Some (PortHandler ''COM1'')) i 122]"

text \<open>
  Two scan requests for \<^verbatim>\<open>COM3\<close>: one with the bounds reversed, 10 down to 1, and one for
  the range 2 to 4.
\<close>

definition scan_request :: message where
  "scan_request = [''port'' \<mapsto> JStr ''COM3'', ''idMin'' \<mapsto> JNum 10, ''idMax'' \<mapsto> JNum 1]"

definition scan_request_small :: message where
  "scan_request_small = [''port'' \<mapsto> JStr ''COM3'', ''idMin'' \<mapsto> JNum 2, ''idMax'' \<mapsto> JNum 4]"

definition com3 :: "port_handler option" where
  "com3 = Some (PortHandler ''COM3'')"

section \<open>Tables used in the statements\<close>

text \<open>
  The seven register reads of \<open>read_state_body\<close> as a table of key, conversion and read,
  in the order of the source; \<open>assign_field\<close> turns a row back into its statement.
\<close>

definition telemetry_fields ::
  "env \<Rightarrow> controller \<Rightarrow> int \<Rightarrow>
   (string \<times> (int \<Rightarrow> pyval) \<times> (trace \<Rightarrow> (exn + int) \<times> trace)) list" where
  "telemetry_fields e c dxl_id =
     [(''operating_mode'', PInt, read1 e c dxl_id ADDR_OPERATING_MODE),
      (''torque_enabled'', \<lambda>v. PBool (v \<noteq> 0), read1 e c dxl_id ADDR_TORQUE_ENABLE),
      (''present_pwm'', PInt, read2 e c dxl_id ADDR_PRESENT_PWM),
      (''present_current'', PInt, read2 e c dxl_id ADDR_PRESENT_CURRENT),
      (''present_velocity'', PInt, read4 e c dxl_id ADDR_PRESENT_VELOCITY),
      (''present_position'', PInt, read4 e c dxl_id ADDR_PRESENT_POSITION),
      (''moving'', \<lambda>v. PBool (v \<noteq> 0), read1 e c dxl_id ADDR_MOVING)]"

definition assign_field ::
  "string \<times> (int \<Rightarrow> pyval) \<times> (trace \<Rightarrow> (exn + int) \<times> trace) \<Rightarrow> state \<times> trace \<Rightarrow>
   exn option \<times> (state \<times> trace)" where
  "assign_field f = assign (fst f) (fst (snd f)) (snd (snd f))"

text \<open>
  A register read, as the proofs need it: it puts exactly one call on the trace and the only
  exception it raises is \<open>DynamixelError\<close>.
\<close>

definition reader :: "(trace \<Rightarrow> (exn + int) \<times> trace) \<Rightarrow> bool" where
  "reader rd =
     (\<forall>t. length (snd (rd t)) = Suc (length t)
          \<and> (\<forall>ex. fst (rd t) = Inl ex \<longrightarrow> (\<exists>m. ex = DynamixelError m)))"

text \<open>
  The keys of a complete telemetry dictionary, in the order \<^verbatim>\<open>read_state\<close> stores them.
\<close>

definition telemetry_keys :: "string list" where
  "telemetry_keys =
     [''operating_mode'', ''torque_enabled'', ''present_pwm'', ''present_current'',
      ''present_velocity'', ''present_position'', ''moving'', ''operating_mode_name'']"

text \<open>
  The order the specification fixes for \<^verbatim>\<open>setGoals\<close>, written down independently of
  \<open>set_goals\<close>: one masked write for each field that is present, profileAccel,
  profileVelocity, pwm, current, velocity, position.
\<close>

definition present_write :: "int option \<Rightarrow> (int \<Rightarrow> call) \<Rightarrow> call list" where
  "present_write x w = (case x of None \<Rightarrow> [] | Some v \<Rightarrow> [w v])"

definition spec_goal_writes ::
  "controller \<Rightarrow> int \<Rightarrow> int option \<Rightarrow> int option \<Rightarrow> int option \<Rightarrow> int option \<Rightarrow> int option \<Rightarrow>
   int option \<Rightarrow> call list" where
  "spec_goal_writes c dxl_id goal_position goal_velocity goal_current goal_pwm profile_velocity
     profile_accel =
     present_write profile_accel
       (\<lambda>v. Write4 (port_handler c) dxl_id ADDR_PROFILE_ACCEL (v AND 0xFFFFFFFF))
     @ present_write profile_velocity
       (\<lambda>v. Write4 (port_handler c) dxl_id ADDR_PROFILE_VELOCITY (v AND 0xFFFFFFFF))
     @ present_write goal_pwm
       (\<lambda>v. Write2 (port_handler c) dxl_id ADDR_GOAL_PWM (v AND 0xFFFF))
     @ present_write goal_current
       (\<lambda>v. Write2 (port_handler c) dxl_id ADDR_GOAL_CURRENT (v AND 0xFFFF))
     @ present_write goal_velocity
       (\<lambda>v. Write4 (port_handler c) dxl_id ADDR_GOAL_VELOCITY (v AND 0xFFFFFFFF))
     @ present_write goal_position
       (\<lambda>v. Write4 (port_handler c) dxl_id ADDR_GOAL_POSITION (v AND 0xFFFFFFFF))"

text \<open>
  Whether a ping answered: it returned, with \<open>COMM_SUCCESS\<close> and device status 0. This is
  the test of the sweep in \<^verbatim>\<open>handle_scan_servos\<close>.
\<close>

definition responds :: "env \<Rightarrow> trace \<Rightarrow> port_handler option \<Rightarrow> int \<Rightarrow> bool" where
  "responds e tr h dxl_id =
     (case ping e tr h dxl_id of
        Inl m \<Rightarrow> False
      | Inr (model_number, dxl_comm_result, dxl_error) \<Rightarrow>
          dxl_comm_result = COMM_SUCCESS e \<and> dxl_error = 0)"

text \<open>
  The outcome of the exchange behind a write call when it is issued at trace \<open>t\<close>: \<open>None\<close>
  when the transport reports \<open>COMM_SUCCESS\<close> and the device status 0, otherwise the
  \<open>DynamixelError\<close> with the message the source builds. Calls that are not writes have no
  such outcome.
\<close>

fun write_outcome :: "env \<Rightarrow> trace \<Rightarrow> call \<Rightarrow> exn option" where
  "write_outcome e t (Write1 h i a v) =
     (case write1ByteTxRx e t h i a v of
        (dxl_comm_result, dxl_error) \<Rightarrow>
          map_option DynamixelError
            (check_result e (write_prefix i a) (write_prefix i a) dxl_comm_result dxl_error))"
| "write_outcome e t (Write2 h i a v) =
     (case write2ByteTxRx e t h i a v of
        (dxl_comm_result, dxl_error) \<Rightarrow>
          map_option DynamixelError
            (check_result e (write_prefix i a) (write_prefix i a) dxl_comm_result dxl_error))"
| "write_outcome e t (Write4 h i a v) =
     (case write4ByteTxRx e t h i a v of
        (dxl_comm_result, dxl_error) \<Rightarrow>
          map_option DynamixelError
            (check_result e (write_prefix i a) (write_prefix i a) dxl_comm_result dxl_error))"
| "write_outcome e t c = None"

text \<open>
  Issuing a list of writes the way the amended C8 describes it: one after the other, each
  on the trace the earlier ones left; the first write whose exchange fails is still
  issued, its error is raised at once, and the writes after it are not issued.
\<close>

fun spec_run_writes :: "env \<Rightarrow> trace \<Rightarrow> call list \<Rightarrow> exn option \<times> trace" where
  "spec_run_writes e t [] = (None, t)"
| "spec_run_writes e t (w # ws) =
     (case write_outcome e t w of
        Some ex \<Rightarrow> (Some ex, t @ [w])
      | None \<Rightarrow> spec_run_writes e (t @ [w]) ws)"





text \<open>The handlers that \<open>closePort\<close> was called on, in the order of the calls.\<close>

fun closed_handle :: "call \<Rightarrow> port_handler option list" where
  "closed_handle (ClosePort h) = [h]"
| "closed_handle c = []"

definition closed_handles :: "trace \<Rightarrow> port_handler option list" where
  "closed_handles t = concat (map closed_handle t)"




section \<open>Codec lemmas\<close>

lemma and_ff_mod: "(v::int) AND 0xFF = v mod 256"
  using take_bit_eq_mask[of 8 v] by (simp add: take_bit_eq_mod mask_eq_exp_minus_1)

lemma and_ffff_mod: "(v::int) AND 0xFFFF = v mod 65536"
  using take_bit_eq_mask[of 16 v] by (simp add: take_bit_eq_mod mask_eq_exp_minus_1)

lemma and_ffffffff_mod: "(v::int) AND 0xFFFFFFFF = v mod 4294967296"
  using take_bit_eq_mask[of 32 v] by (simp add: take_bit_eq_mod mask_eq_exp_minus_1)

lemma top_bit16:
  assumes "0 \<le> u" "u < 65536"
  shows "((u::int) AND 0x8000 \<noteq> 0) = (32768 \<le> u)"
proof -
  have "(u AND 2 ^ 15 = 0) = (\<not> bit u 15)" by (rule and_exp_eq_0_iff_not_bit)
  moreover have "bit u 15 = odd (u div 32768)" by (simp add: bit_iff_odd)
  moreover have "odd (u div 32768) = (32768 \<le> u)"
  proof (cases "32768 \<le> u")
    case True
    with assms have "u div 32768 = 1" by simp
    with True show ?thesis by simp
  next
    case False
    with assms have "u div 32768 = 0" by simp
    with False show ?thesis by simp
  qed
  ultimately show ?thesis by simp
qed

lemma top_bit32:
  assumes "0 \<le> u" "u < 4294967296"
  shows "((u::int) AND 0x80000000 \<noteq> 0) = (2147483648 \<le> u)"
proof -
  have "(u AND 2 ^ 31 = 0) = (\<not> bit u 31)" by (rule and_exp_eq_0_iff_not_bit)
  moreover have "bit u 31 = odd (u div 2147483648)" by (simp add: bit_iff_odd)
  moreover have "odd (u div 2147483648) = (2147483648 \<le> u)"
  proof (cases "2147483648 \<le> u")
    case True
    with assms have "u div 2147483648 = 1" by simp
    with True show ?thesis by simp
  next
    case False
    with assms have "u div 2147483648 = 0" by simp
    with False show ?thesis by simp
  qed
  ultimately show ?thesis by simp
qed

lemma roundtrip1: 
  assumes "0 \<le> v" "v < 256"
  shows "read1_ret (write1_arg v) = v"
  using assms by (simp add: read1_ret_def write1_arg_def and_ff_mod)

lemma roundtrip2:
  assumes "- 32768 \<le> v" "v < 32768"
  shows "read2_ret (write2_arg v) = v"
proof (cases "0 \<le> v")
  case True
  with assms have "v mod 65536 = v" by simp
  with True assms show ?thesis
    by (simp add: read2_ret_def write2_arg_def and_ffff_mod top_bit16)
next
  case False
  have m: "v mod 65536 = v + 65536"
    using mod_pos_pos_trivial[of "v + 65536" 65536] False assms by simp
  from False assms have "0 \<le> v + 65536" "v + 65536 < 65536" "32768 \<le> v + 65536"
    by simp_all
  with m show ?thesis
    by (simp add: read2_ret_def write2_arg_def and_ffff_mod top_bit16)
qed

lemma roundtrip4:
  assumes "- 2147483648 \<le> v" "v < 2147483648"
  shows "read4_ret (write4_arg v) = v"
proof (cases "0 \<le> v")
  case True
  with assms have "v mod 4294967296 = v" by simp
  with True assms show ?thesis
    by (simp add: read4_ret_def write4_arg_def and_ffffffff_mod top_bit32)
next
  case False
  have m: "v mod 4294967296 = v + 4294967296"
    using mod_pos_pos_trivial[of "v + 4294967296" 4294967296] False assms by simp
  from False assms have "0 \<le> v + 4294967296" "v + 4294967296 < 4294967296"
    "2147483648 \<le> v + 4294967296"
    by simp_all
  with m show ?thesis
    by (simp add: read4_ret_def write4_arg_def and_ffffffff_mod top_bit32)
qed

lemma top_set_negative2:
  assumes "0 \<le> u" "u < 65536" "u AND 0x8000 \<noteq> 0"
  shows "read2_ret u < 0"
  using assms by (simp add: read2_ret_def)

lemma top_set_negative4:
  assumes "0 \<le> u" "u < 4294967296" "u AND 0x80000000 \<noteq> 0"
  shows "read4_ret u < 0"
  using assms by (simp add: read4_ret_def)


section \<open>Blocks of statements and register reads\<close>

lemma read_state_body_fields:
  "read_state_body e c i = map assign_field (telemetry_fields e c i) @ [assign_mode_name]"
  by (simp add: read_state_body_def telemetry_fields_def assign_field_def)

lemma exec_block_append:
  "exec_block (as @ bs) s =
     (case exec_block as s of (Some ex, s') \<Rightarrow> (Some ex, s') | (None, s') \<Rightarrow> exec_block bs s')"
  by (induction as arbitrary: s) (auto split: prod.splits option.splits)

lemma update_new_key: "k \<notin> fst ` set al \<Longrightarrow> AList.update k v al = al @ [(k, v)]"
  by (induction al) auto

lemma reader_read1: "reader (read1 e c i a)"
  by (auto simp: reader_def read1_def split: prod.splits option.splits)
lemma reader_read2: "reader (read2 e c i a)"
  by (auto simp: reader_def read2_def split: prod.splits option.splits)
lemma reader_read4: "reader (read4 e c i a)"
  by (auto simp: reader_def read4_def split: prod.splits option.splits)

lemma telemetry_fields_readers: "\<forall>f \<in> set (telemetry_fields e c i). reader (snd (snd f))"
  by (simp add: telemetry_fields_def reader_read1 reader_read2 reader_read4)

lemma telemetry_fields_keys:
  "map fst (telemetry_fields e c i) =
     [''operating_mode'', ''torque_enabled'', ''present_pwm'', ''present_current'',
      ''present_velocity'', ''present_position'', ''moving'']"
  by (simp add: telemetry_fields_def)

lemma assign_field_cases:
  assumes "reader (snd (snd f))"
  shows "(\<exists>m t'. assign_field f (st, t) = (Some (DynamixelError m), (st, t')) \<and> length t' = Suc (length t))
       \<or> (\<exists>v t'. assign_field f (st, t) = (None, (AList.update (fst f) v st, t')) \<and> length t' = Suc (length t))"
proof (cases "snd (snd f) t")
  case (Pair r t')
  with assms have len: "length t' = Suc (length t)"
    unfolding reader_def by (metis snd_conv)
  show ?thesis
  proof (cases r)
    case (Inl ex)
    with Pair assms obtain m where "ex = DynamixelError m"
      unfolding reader_def by (metis fst_conv)
    with Inl Pair len show ?thesis by (simp add: assign_field_def assign_def)
  next
    case (Inr v)
    with Pair len show ?thesis by (auto simp: assign_field_def assign_def)
  qed
qed

lemma fields_completed:
  assumes "\<forall>f \<in> set fs. reader (snd (snd f))"
    and "distinct (map fst fs)" and "set (map fst fs) \<inter> fst ` set st0 = {}"
    and "exec_block (map assign_field fs) (st0, t0) = (None, (st, t))"
  shows "map fst st = map fst st0 @ map fst fs \<and> length t = length t0 + length fs"
  using assms
proof (induction fs arbitrary: st0 t0)
  case Nil
  then show ?case by simp
next
  case (Cons f fs)
  from Cons.prems(1) have rf: "reader (snd (snd f))" by simp
  from assign_field_cases [OF rf, of st0 t0] Cons.prems(4)
  obtain v t' where a: "assign_field f (st0, t0) = (None, (AList.update (fst f) v st0, t'))"
    and l: "length t' = Suc (length t0)"
    by (auto split: prod.splits option.splits)
  from Cons.prems(3) have new: "fst f \<notin> fst ` set st0" by auto
  then have upd: "AList.update (fst f) v st0 = st0 @ [(fst f, v)]" by (rule update_new_key)
  from a Cons.prems(4) have rest: "exec_block (map assign_field fs) (st0 @ [(fst f, v)], t') = (None, (st, t))"
    by (simp add: upd)
  have "map fst st = map fst (st0 @ [(fst f, v)]) @ map fst fs \<and> length t = length t' + length fs"
  proof (rule Cons.IH [OF _ _ _ rest])
    show "\<forall>f\<in>set fs. reader (snd (snd f))" using Cons.prems(1) by simp
    show "distinct (map fst fs)" using Cons.prems(2) by simp
    show "set (map fst fs) \<inter> fst ` set (st0 @ [(fst f, v)]) = {}"
      using Cons.prems(2,3) by auto
  qed
  with l show ?case by simp
qed

lemma assign_mode_name_completes: "fst (assign_mode_name s) = None"
  by (simp add: assign_mode_name_def Let_def)


lemma write1_trace:
  "snd (write1 e c i a v tr) = tr @ [Write1 (port_handler c) i a (write1_arg v)]"
  by (simp add: write1_def split: prod.splits)

lemma write2_trace:
  "snd (write2 e c i a v tr) = tr @ [Write2 (port_handler c) i a (write2_arg v)]"
  by (simp add: write2_def split: prod.splits)

lemma write4_trace:
  "snd (write4 e c i a v tr) = tr @ [Write4 (port_handler c) i a (write4_arg v)]"
  by (simp add: write4_def split: prod.splits)

lemma write1_raises:
  "fst (write1 e c i a v tr) = Some ex \<Longrightarrow> \<exists>m. ex = DynamixelError m"
  by (auto simp: write1_def split: prod.splits)

lemma write2_raises:
  "fst (write2 e c i a v tr) = Some ex \<Longrightarrow> \<exists>m. ex = DynamixelError m"
  by (auto simp: write2_def split: prod.splits)

lemma write4_raises:
  "fst (write4 e c i a v tr) = Some ex \<Longrightarrow> \<exists>m. ex = DynamixelError m"
  by (auto simp: write4_def split: prod.splits)

section \<open>What the commands raise, and what their handlers emit\<close>

lemma block_raises:
  assumes "\<forall>a \<in> set as. \<forall>s ex. fst (a s) = Some ex \<longrightarrow> (\<exists>m. ex = DynamixelError m)"
    and "fst (exec_block as s) = Some ex"
  shows "\<exists>m. ex = DynamixelError m"
  using assms
proof (induction as arbitrary: s)
  case Nil
  then show ?case by simp
next
  case (Cons a as)
  show ?case
  proof (cases "a s")
    case (Pair r s')
    show ?thesis
    proof (cases r)
      case None
      with Pair Cons.prems(2) have "fst (exec_block as s') = Some ex" by simp
      with Cons.IH Cons.prems(1) show ?thesis by simp
    next
      case (Some ex')
      with Pair Cons.prems(2) have "ex' = ex" by simp
      with Some Pair Cons.prems(1) show ?thesis by (metis fst_conv list.set_intros(1))
    qed
  qed
qed

lemma if_not_None_raises:
  assumes "\<And>v t ex. fst (w v t) = Some ex \<Longrightarrow> \<exists>m. ex = DynamixelError m"
    and "fst (if_not_None x w t) = Some ex"
  shows "\<exists>m. ex = DynamixelError m"
  using assms by (cases x) (auto simp: if_not_None_def)

lemma set_torque_raises:
  "fst (set_torque e c i en tr) = Some ex \<Longrightarrow> \<exists>m. ex = DynamixelError m"
  unfolding set_torque_def by (rule write1_raises)

lemma set_goals_raises:
  assumes "fst (set_goals e c i gp gv gc gpwm pv pa tr) = Some ex"
  shows "\<exists>m. ex = DynamixelError m"
proof (rule block_raises [OF _ assms [unfolded set_goals_def]])
  show "\<forall>a\<in>set [if_not_None pa (write4 e c i ADDR_PROFILE_ACCEL),
                  if_not_None pv (write4 e c i ADDR_PROFILE_VELOCITY),
                  if_not_None gpwm (write2 e c i ADDR_GOAL_PWM),
                  if_not_None gc (write2 e c i ADDR_GOAL_CURRENT),
                  if_not_None gv (write4 e c i ADDR_GOAL_VELOCITY),
                  if_not_None gp (write4 e c i ADDR_GOAL_POSITION)].
          \<forall>s ex. fst (a s) = Some ex \<longrightarrow> (\<exists>m. ex = DynamixelError m)"
    using if_not_None_raises [OF write4_raises] if_not_None_raises [OF write2_raises]
    by simp
qed

lemma set_operating_mode_raises:
  assumes "fst (set_operating_mode e c i mode at tr) = Some ex"
  shows "\<exists>m. ex = DynamixelError m"
proof (rule block_raises [OF _ assms [unfolded set_operating_mode_def]])
  have a: "\<exists>m. ex = DynamixelError m"
    if h: "fst (case set_torque e c i False t of
                  (Some (DynamixelError m), t') \<Rightarrow> (None, t') | r \<Rightarrow> r) = Some ex"
    for t ex
  proof (cases "set_torque e c i False t")
    case (Pair r t')
    show ?thesis
    proof (cases r)
      case None
      with Pair h show ?thesis by simp
    next
      case (Some ex')
      with Pair set_torque_raises [of e c i False t ex']
      obtain m where "ex' = DynamixelError m" by auto
      with Some Pair h show ?thesis by simp
    qed
  qed
  show "\<forall>a\<in>set [\<lambda>t. if at
                      then (case set_torque e c i False t of
                              (Some (DynamixelError m), t') \<Rightarrow> (None, t') | r \<Rightarrow> r)
                    else (None, t),
                  write1 e c i ADDR_OPERATING_MODE mode,
                  \<lambda>t. if at then set_torque e c i True t else (None, t)].
          \<forall>s ex. fst (a s) = Some ex \<longrightarrow> (\<exists>m. ex = DynamixelError m)"
    using a write1_raises [of e c i ADDR_OPERATING_MODE mode] set_torque_raises [of e c i True]
    by simp
qed

lemma handle_set_torque_outcomes:
  assumes "dxl g = Some ctl" and "py_int e (msg_get message ''id'') = Inr i"
  shows "(\<exists>s t'. handle_set_torque e g message tr =
            ([Log ''info'' (''ID '' @ str_int i @ '': torque '' @ s)], None, t'))
       \<or> (\<exists>m t'. handle_set_torque e g message tr =
            ([Log ''error'' (''Failed to set torque on ID '' @ str_int i @ '': '' @ m)], None, t'))"
proof (cases "set_torque e ctl i (truthy (msg_get message ''enable'')) tr")
  case (Pair r t')
  show ?thesis
  proof (cases r)
    case None
    with Pair assms show ?thesis by (simp add: handle_set_torque_def on_value_def)
  next
    case (Some ex)
    with Pair set_torque_raises [of e ctl i "truthy (msg_get message ''enable'')" tr ex]
    obtain m where "ex = DynamixelError m" by auto
    with Some Pair assms show ?thesis by (simp add: handle_set_torque_def on_value_def)
  qed
qed

lemma handle_set_operating_mode_outcomes:
  assumes "dxl g = Some ctl" and "py_int e (msg_get message ''id'') = Inr i"
    and "py_int e (msg_get message ''mode'') = Inr mode"
  shows "(\<exists>t'. handle_set_operating_mode e g message tr =
            ([Log ''info'' (''ID '' @ str_int i @ '': set operating mode to '' @ str_int mode)],
             None, t'))
       \<or> (\<exists>m t'. handle_set_operating_mode e g message tr =
            ([Log ''error'' (''Failed to set operating mode on ID '' @ str_int i @ '': '' @ m)],
             None, t'))"
proof (cases "set_operating_mode e ctl i mode
                (truthy (msg_get_default message ''autoTorque'' (JBool True))) tr")
  case (Pair r t')
  show ?thesis
  proof (cases r)
    case None
    with Pair assms show ?thesis by (simp add: handle_set_operating_mode_def on_value_def)
  next
    case (Some ex)
    with Pair set_operating_mode_raises
      [of e ctl i mode "truthy (msg_get_default message ''autoTorque'' (JBool True))" tr ex]
    obtain m where "ex = DynamixelError m" by auto
    with Some Pair assms show ?thesis by (simp add: handle_set_operating_mode_def on_value_def)
  qed
qed

lemma handle_set_goals_outcomes:
  assumes "dxl g = Some ctl" and "py_int e (msg_get message ''id'') = Inr i"
    and "maybe_int e message ''goalPosition'' = Inr gp"
    and "maybe_int e message ''goalVelocity'' = Inr gv"
    and "maybe_int e message ''goalCurrent'' = Inr gc"
    and "maybe_int e message ''goalPwm'' = Inr gpwm"
    and "maybe_int e message ''profileVelocity'' = Inr pv"
    and "maybe_int e message ''profileAccel'' = Inr pa"
  shows "(\<exists>s t'. handle_set_goals e g message tr =
            ([Log ''info'' (''ID '' @ str_int i @ '': updated goals '' @ s)], None, t'))
       \<or> (\<exists>m t'. handle_set_goals e g message tr =
            ([Log ''error'' (''Failed to set goals on ID '' @ str_int i @ '': '' @ m)], None, t'))"
proof (cases "set_goals e ctl i gp gv gc gpwm pv pa tr")
  case (Pair r t')
  show ?thesis
  proof (cases r)
    case None
    with Pair assms show ?thesis by (simp add: handle_set_goals_def on_value_def)
  next
    case (Some ex)
    with Pair set_goals_raises [of e ctl i gp gv gc gpwm pv pa tr ex]
    obtain m where "ex = DynamixelError m" by auto
    with Some Pair assms show ?thesis by (simp add: handle_set_goals_def on_value_def)
  qed
qed


section \<open>The body of read\_state\<close>

lemma assign_field_raises:
  assumes "reader (snd (snd f))" and "fst (assign_field f s) = Some ex"
  shows "\<exists>m. ex = DynamixelError m"
  using assign_field_cases [OF assms(1), of "fst s" "snd s"] assms(2) by auto

lemma fields_keys_subset:
  assumes "\<forall>f \<in> set fs. reader (snd (snd f))"
    and "exec_block (map assign_field fs) (st0, t0) = (r, (st, t))"
  shows "fst ` set st \<subseteq> fst ` set st0 \<union> set (map fst fs)"
  using assms
proof (induction fs arbitrary: st0 t0)
  case Nil
  then show ?case by simp
next
  case (Cons f fs)
  from Cons.prems(1) have rf: "reader (snd (snd f))" by simp
  from assign_field_cases [OF rf, of st0 t0]
  show ?case
  proof
    assume "\<exists>m t'. assign_field f (st0, t0) = (Some (DynamixelError m), (st0, t'))
                   \<and> length t' = Suc (length t0)"
    with Cons.prems(2) have "st = st0" by auto
    then show ?thesis by auto
  next
    assume "\<exists>v t'. assign_field f (st0, t0) = (None, (AList.update (fst f) v st0, t'))
                   \<and> length t' = Suc (length t0)"
    then obtain v t' where a: "assign_field f (st0, t0) = (None, (AList.update (fst f) v st0, t'))"
      by auto
    with Cons.prems(2)
    have rest: "exec_block (map assign_field fs) (AList.update (fst f) v st0, t') = (r, (st, t))"
      by simp
    have "fst ` set st \<subseteq> fst ` set (AList.update (fst f) v st0) \<union> set (map fst fs)"
      by (rule Cons.IH [OF _ rest]) (use Cons.prems(1) in simp)
    then show ?thesis by (auto simp: dom_update)
  qed
qed

lemma body_completed:
  assumes "exec_block (read_state_body e c i) ([], tr) = (None, (st, t))"
  shows "map fst st = telemetry_keys"
proof -
  let ?fs = "telemetry_fields e c i"
  obtain r0 st0 t0 where f: "exec_block (map assign_field ?fs) ([], tr) = (r0, (st0, t0))"
    by (metis surj_pair)
  with assms have r0: "r0 = None" and m: "assign_mode_name (st0, t0) = (None, (st, t))"
    by (auto simp: read_state_body_fields exec_block_append split: option.splits prod.splits)
  have "map fst st0 = map fst ([]::state) @ map fst ?fs \<and> length t0 = length tr + length ?fs"
    by (rule fields_completed [OF telemetry_fields_readers])
       (use f r0 in \<open>simp_all add: telemetry_fields_keys\<close>)
  then have k0: "map fst st0 = map fst ?fs" by simp
  have "''operating_mode_name'' \<notin> set (map fst st0)"
    unfolding k0 telemetry_fields_keys by simp
  then have new: "''operating_mode_name'' \<notin> fst ` set st0" by simp
  obtain name where "assign_mode_name (st0, t0) =
      (None, (AList.update ''operating_mode_name'' (PStr name) st0, t0))"
    by (simp add: assign_mode_name_def Let_def)
  with m have "st = AList.update ''operating_mode_name'' (PStr name) st0" by simp
  then have "st = st0 @ [(''operating_mode_name'', PStr name)]"
    using update_new_key [OF new] by simp
  then have "map fst st = map fst st0 @ [''operating_mode_name'']" by simp
  then show ?thesis
    unfolding k0 telemetry_fields_keys telemetry_keys_def by simp
qed

lemma body_failed:
  assumes "exec_block (read_state_body e c i) ([], tr) = (Some ex, (st, t))"
  shows "''error'' \<notin> fst ` set st \<and> (\<exists>m. ex = DynamixelError m)"
proof -
  let ?fs = "telemetry_fields e c i"
  obtain r0 st0 t0 where f: "exec_block (map assign_field ?fs) ([], tr) = (r0, (st0, t0))"
    by (metis surj_pair)
  have "r0 \<noteq> None"
  proof
    assume "r0 = None"
    with f assms have "fst (assign_mode_name (st0, t0)) \<noteq> None"
      by (auto simp: read_state_body_fields exec_block_append split: prod.splits option.splits)
    with assign_mode_name_completes [of "(st0, t0)"] show False by simp
  qed
  with f assms have r0: "r0 = Some ex" and st: "st0 = st"
    by (auto simp: read_state_body_fields exec_block_append)
  have "fst ` set st0 \<subseteq> fst ` set ([]::state) \<union> set (map fst ?fs)"
    by (rule fields_keys_subset [OF telemetry_fields_readers f])
  then have "fst ` set st \<subseteq> set (map fst ?fs)" using st by simp
  moreover have "''error'' \<notin> set (map fst ?fs)"
    unfolding telemetry_fields_keys by simp
  ultimately have noerr: "''error'' \<notin> fst ` set st" by blast
  have "\<forall>a \<in> set (map assign_field ?fs). \<forall>s ex. fst (a s) = Some ex \<longrightarrow> (\<exists>m. ex = DynamixelError m)"
    using telemetry_fields_readers [of e c i] assign_field_raises by auto
  moreover have "fst (exec_block (map assign_field ?fs) ([], tr)) = Some ex"
    using f r0 by simp
  ultimately have "\<exists>m. ex = DynamixelError m" by (rule block_raises)
  with noerr show ?thesis by simp
qed

lemma read_state_of_body:
  assumes "exec_block (read_state_body e c i) ([], tr) = (r, (st, t))"
  shows "read_state e c i tr =
           (Inr (case r of None \<Rightarrow> st | Some ex \<Rightarrow> st @ [(''error'', PStr (str_exn ex))]), t)"
proof (cases r)
  case None
  with assms show ?thesis by (simp add: read_state_def)
next
  case (Some ex)
  with assms body_failed [of e c i tr ex st t]
  obtain m where "ex = DynamixelError m" and "''error'' \<notin> fst ` set st" by auto
  with Some assms show ?thesis by (simp add: read_state_def update_new_key)
qed

lemma read_state_never_raises: "\<exists>st. fst (read_state e c i tr) = Inr st"
proof -
  obtain r st t where "exec_block (read_state_body e c i) ([], tr) = (r, (st, t))"
    by (metis surj_pair)
  from read_state_of_body [OF this] show ?thesis by simp
qed

lemma read_all_loop_never_raises: "\<exists>m. fst (read_all_loop e c xs acc tr) = Inr m"
proof (induction xs arbitrary: acc tr)
  case Nil
  show ?case by simp
next
  case (Cons x xs)
  obtain st t where "read_state e c x tr = (Inr st, t)"
    using read_state_never_raises [of e c x tr] by (cases "read_state e c x tr") auto
  with Cons.IH show ?case by simp
qed


section \<open>The sweep of the scan\<close>

lemma scan_loop_step:
  "scan_loop e h (i # rest) acc t =
     scan_loop e h rest (if responds e t h i then acc @ [i] else acc) (t @ [Ping h i])"
  by (simp add: responds_def split: sum.splits prod.splits)

lemma scan_loop_upto:
  assumes "lo0 \<le> lo" and "lo \<le> hi + 1"
  shows "scan_loop e h [lo..hi] acc (tr @ map (Ping h) [lo0..lo - 1]) =
           (acc @ filter (\<lambda>i. responds e (tr @ map (Ping h) [lo0..i - 1]) h i) [lo..hi],
            tr @ map (Ping h) [lo0..hi])"
  using assms
proof (induction "nat (hi + 1 - lo)" arbitrary: lo acc)
  case 0
  then have "lo = hi + 1" by simp
  then show ?case by simp
next
  case (Suc n)
  then have le: "lo \<le> hi" by simp
  then have up: "[lo..hi] = lo # [lo + 1..hi]" by (simp add: upto_rec1)
  from Suc.prems(1) have ext: "[lo0..lo] = [lo0..lo - 1] @ [lo]" by (simp add: upto_rec2)
  have ih: "scan_loop e h [lo + 1..hi] acc' (tr @ map (Ping h) [lo0..lo]) =
           (acc' @ filter (\<lambda>i. responds e (tr @ map (Ping h) [lo0..i - 1]) h i) [lo + 1..hi],
            tr @ map (Ping h) [lo0..hi])" for acc'
    using Suc.hyps(1) [of "lo + 1" acc'] Suc.hyps(2) Suc.prems(1) le by simp
  have tr': "(tr @ map (Ping h) [lo0..lo - 1]) @ [Ping h lo] = tr @ map (Ping h) [lo0..lo]"
    by (simp add: ext)
  have "scan_loop e h [lo..hi] acc (tr @ map (Ping h) [lo0..lo - 1]) =
        scan_loop e h [lo + 1..hi]
          (if responds e (tr @ map (Ping h) [lo0..lo - 1]) h lo then acc @ [lo] else acc)
          (tr @ map (Ping h) [lo0..lo])"
    unfolding up scan_loop_step tr' ..
  also have "\<dots> =
      (acc @ filter (\<lambda>i. responds e (tr @ map (Ping h) [lo0..i - 1]) h i) (lo # [lo + 1..hi]),
       tr @ map (Ping h) [lo0..hi])"
    unfolding ih by simp
  finally show ?case unfolding up .
qed

lemma scan_bounds_ordered: "fst (scan_bounds e message) \<le> snd (scan_bounds e message)"
  by (simp add: scan_bounds_def Let_def)


lemma sorted_filter_upto: "sorted (filter P [lo..hi])"
  using sorted_filter [of "\<lambda>x. x" "[lo..hi]" P] by simp

lemma handle_scan_sweep:
  assumes port: "truthy (msg_get message ''port'')"
    and opened: "openPort e tr (Some (PortHandler (str_jval (msg_get message ''port''))))"
    and baud_set: "setBaudRate e
         (tr @ [OpenPort (Some (PortHandler (str_jval (msg_get message ''port''))))])
         (Some (PortHandler (str_jval (msg_get message ''port'')))) (scan_baudrate e message)"
  shows "handle_scan_servos e message tr =
     (let port = msg_get message ''port''; h = Some (PortHandler (str_jval port));
          baud = scan_baudrate e message;
          lo = fst (scan_bounds e message); hi = snd (scan_bounds e message);
          tr2 = tr @ [OpenPort h, SetBaudRate h baud];
          found_ids = filter (\<lambda>i. responds e (tr2 @ map (Ping h) [lo..i - 1]) h i) [lo..hi]
      in ([Scan_result True
             (if found_ids \<noteq> [] then ''Found IDs: '' @ repr_int_list found_ids
              else ''No servos responded on '' @ str_jval port @ '' @ '' @ str_int baud
                   @ '' in range '' @ str_int lo @ ''-'' @ str_int hi @ ''.'')
             found_ids (Some (port, baud, lo, hi))],
          tr2 @ map (Ping h) [lo..hi] @ [ClosePort h]))"
proof -
  let ?port = "msg_get message ''port''"
  let ?h = "Some (PortHandler (str_jval ?port))"
  let ?baud = "scan_baudrate e message"
  let ?lo = "fst (scan_bounds e message)"
  let ?hi = "snd (scan_bounds e message)"
  let ?tr2 = "tr @ [OpenPort ?h, SetBaudRate ?h ?baud]"
  have "scan_loop e ?h [?lo..?hi] [] (?tr2 @ map (Ping ?h) [?lo..?lo - 1]) =
           ([] @ filter (\<lambda>i. responds e (?tr2 @ map (Ping ?h) [?lo..i - 1]) ?h i) [?lo..?hi],
            ?tr2 @ map (Ping ?h) [?lo..?hi])"
    by (rule scan_loop_upto) (use scan_bounds_ordered [of e message] in simp_all)
  then have sweep: "scan_loop e ?h [?lo..?hi] [] ?tr2 =
           (filter (\<lambda>i. responds e (?tr2 @ map (Ping ?h) [?lo..i - 1]) ?h i) [?lo..?hi],
            ?tr2 @ map (Ping ?h) [?lo..?hi])"
    by simp
  show ?thesis
    using port opened baud_set sweep
    by (simp add: handle_scan_servos_def scan_body_def Let_def)
qed

section \<open>The constructor\<close>

lemma get_model_number_trace:
  "snd (get_model_number e c i tr) = tr @ [Ping (port_handler c) i]"
  by (simp add: get_model_number_def split: sum.splits prod.splits option.splits)

lemma ping_ids_trace: "\<exists>rest. snd (ping_ids e c xs tr) = tr @ rest"
proof (induction xs arbitrary: tr)
  case Nil
  show ?case by simp
next
  case (Cons x xs)
  obtain r where g: "get_model_number e c x tr = (r, tr @ [Ping (port_handler c) x])"
    using get_model_number_trace [of e c x tr] by (cases "get_model_number e c x tr") simp
  from Cons.IH [of "tr @ [Ping (port_handler c) x]"]
  obtain rest where "snd (ping_ids e c xs (tr @ [Ping (port_handler c) x])) =
      (tr @ [Ping (port_handler c) x]) @ rest" by blast
  with g show ?case
    by (cases r) (auto split: exn.splits)
qed

lemma DynamixelController_result:
  "\<exists>rest. snd (DynamixelController e port baud dxl_ids tr) =
             tr @ OpenPort (Some (PortHandler port)) # rest
          \<and> (\<forall>ctl. fst (DynamixelController e port baud dxl_ids tr) = Inr ctl \<longrightarrow>
                ctl = \<lparr>port_name = port, baudrate = baud, ids = dxl_ids,
                       port_handler = Some (PortHandler port)\<rparr>)"
proof -
  let ?self = "\<lparr>port_name = port, baudrate = baud, ids = dxl_ids,
                 port_handler = Some (PortHandler port)\<rparr>"
  let ?t2 = "tr @ [OpenPort (Some (PortHandler port)), SetBaudRate (Some (PortHandler port)) baud]"
  obtain rest where "snd (ping_ids e ?self dxl_ids ?t2) = ?t2 @ rest"
    using ping_ids_trace by blast
  then show ?thesis
    by (cases "ping_ids e ?self dxl_ids ?t2")
       (auto simp: DynamixelController_def Let_def split: option.splits)
qed


section \<open>Blocks of conditional writes\<close>

lemma spec_run_writes_append:
  "spec_run_writes e t (xs @ ys) =
     (case spec_run_writes e t xs of
        (Some ex, t') \<Rightarrow> (Some ex, t')
      | (None, t') \<Rightarrow> spec_run_writes e t' ys)"
  by (induction xs arbitrary: t) (auto split: option.splits)

lemma exec_block_writes:
  assumes "list_all2 (\<lambda>a ws. \<forall>t. a t = spec_run_writes e t ws) as wss"
  shows "exec_block as t = spec_run_writes e t (concat wss)"
  using assms
proof (induction as wss arbitrary: t rule: list_all2_induct)
  case Nil
  show ?case by simp
next
  case (Cons a as ws wss)
  from Cons.hyps(1) have a: "a t = spec_run_writes e t ws" by simp
  show ?case
  proof (cases "spec_run_writes e t ws")
    case (Pair r t')
    with a Cons.IH [of t'] show ?thesis
      by (cases r) (simp_all add: spec_run_writes_append)
  qed
qed

lemma write2_outcome:
  "write2 e c i a v t =
     spec_run_writes e t [Write2 (port_handler c) i a (v AND 0xFFFF)]"
  by (simp add: write2_def write2_arg_def split: prod.splits option.splits)

lemma write4_outcome:
  "write4 e c i a v t =
     spec_run_writes e t [Write4 (port_handler c) i a (v AND 0xFFFFFFFF)]"
  by (simp add: write4_def write4_arg_def split: prod.splits option.splits)

lemma if_not_None_writes:
  assumes "\<And>v t. w v t = spec_run_writes e t [k v]"
  shows "if_not_None x w t = spec_run_writes e t (present_write x k)"
  using assms by (cases x) (simp_all add: if_not_None_def present_write_def)

lemma spec_run_writes_stops:
  "\<exists>issued rest.
     snd (spec_run_writes e t ws) = t @ issued \<and> ws = issued @ rest
     \<and> (fst (spec_run_writes e t ws) = None \<longrightarrow> rest = [])
     \<and> (fst (spec_run_writes e t ws) \<noteq> None \<longrightarrow> issued \<noteq> [])
     \<and> (\<forall>k < length issued.
           write_outcome e (t @ take k issued) (issued ! k) =
             (if Suc k = length issued then fst (spec_run_writes e t ws) else None))"
proof (induction ws arbitrary: t)
  case Nil
  show ?case by simp
next
  case (Cons w ws)
  show ?case
  proof (cases "write_outcome e t w")
    case (Some ex)
    show ?thesis
      by (rule exI [of _ "[w]"], rule exI [of _ ws]) (simp add: Some)
  next
    case None
    from Cons.IH [of "t @ [w]"] obtain issued rest where
      ih: "snd (spec_run_writes e (t @ [w]) ws) = (t @ [w]) @ issued" "ws = issued @ rest"
        "fst (spec_run_writes e (t @ [w]) ws) = None \<longrightarrow> rest = []"
        "fst (spec_run_writes e (t @ [w]) ws) \<noteq> None \<longrightarrow> issued \<noteq> []"
        "\<forall>k < length issued.
           write_outcome e ((t @ [w]) @ take k issued) (issued ! k) =
             (if Suc k = length issued then fst (spec_run_writes e (t @ [w]) ws) else None)"
      by (elim exE conjE)
    have r: "spec_run_writes e t (w # ws) = spec_run_writes e (t @ [w]) ws"
      by (simp add: None)
    have k: "write_outcome e (t @ take k (w # issued)) ((w # issued) ! k) =
             (if Suc k = length (w # issued) then fst (spec_run_writes e (t @ [w]) ws) else None)"
      if "k < length (w # issued)" for k
    proof (cases k)
      case 0
      show ?thesis
      proof (cases "issued = []")
        case True
        with ih(4) have "fst (spec_run_writes e (t @ [w]) ws) = None" by blast
        with 0 True None show ?thesis by simp
      next
        case False
        with 0 None show ?thesis by simp
      qed
    next
      case (Suc j)
      with that have "j < length issued" by simp
      with ih(5) Suc show ?thesis by simp
    qed
    show ?thesis
      unfolding r
      by (rule exI [of _ "w # issued"], rule exI [of _ rest]) (use ih(1-4) k in simp)
  qed
qed

section \<open>Closing sessions\<close>


lemma close_calls_closePort:
  "port_handler c \<noteq> None \<Longrightarrow> snd (close e c tr) = tr @ [ClosePort (port_handler c)]"
  by (simp add: close_def split: option.splits)

lemma closed_handles_append: "closed_handles (t @ u) = closed_handles t @ closed_handles u"
  by (simp add: closed_handles_def)








lemma close_repeated:
  assumes "port_handler c \<noteq> None"
  shows "((\<lambda>t. snd (close e c t)) ^^ n) tr = tr @ replicate n (ClosePort (port_handler c))"
proof (induction n)
  case 0
  show ?case by simp
next
  case (Suc n)
  then show ?case
    using close_calls_closePort [OF assms] by (simp add: replicate_append_same)
qed


section \<open>C1: a failed field read inside read\_state\<close>

text \<open>
  On the bus whose torque register (address 64) reports a device status, the first read of
  \<open>read_state\<close> succeeds and the second fails: the dictionary returned holds
  \<open>operating_mode\<close> next to \<open>error\<close>, so it is not made of the error message alone.
\<close>

theorem read_state_partial_counterexample:
  "read_state (bus_fault_at 64) ctl_A 1 [] =
     (Inr [(''operating_mode'', PInt 3),
           (''error'', PStr ''Failed to read (ID 1, addr 64): hardware error'')],
      [Read1 (Some (PortHandler ''COM1'')) 1 11, Read1 (Some (PortHandler ''COM1'')) 1 64])"
  by code_simp

text \<open>
  C1, amended. When the first \<open>k\<close> statements of the body complete, leaving the dictionary
  \<open>st\<close>, and statement \<open>k\<close> raises a \<open>DynamixelError\<close> with message \<open>m\<close>, then
  \<open>read_state\<close> returns \<open>st\<close> with \<open>error \<mapsto> m\<close> appended and nothing raised; \<open>st\<close>
  holds exactly the first \<open>k\<close> telemetry keys (so the result is the error alone exactly
  when the first read fails); and the trace has grown by \<open>k + 1\<close> calls, the \<open>k\<close> reads
  that succeeded and the one that failed: no field is read after the failure.
\<close>

theorem read_state_short_circuit:
  assumes k: "k < length (read_state_body e c i)"
    and pre: "exec_block (take k (read_state_body e c i)) ([], tr) = (None, (st, t1))"
    and fail: "(read_state_body e c i ! k) (st, t1) = (Some (DynamixelError m), s2)"
  shows "read_state e c i tr = (Inr (st @ [(''error'', PStr m)]), snd s2)
       \<and> map fst st = take k [''operating_mode'', ''torque_enabled'', ''present_pwm'',
                               ''present_current'', ''present_velocity'', ''present_position'',
                               ''moving'']
       \<and> length (snd s2) = length tr + k + 1"
proof -
  let ?fs = "telemetry_fields e c i"
  have len: "length ?fs = 7" by (simp add: telemetry_fields_def)
  have k7: "k < 7"
  proof (rule ccontr)
    assume "\<not> k < 7"
    with k len have "k = 7" by (simp add: read_state_body_fields)
    then have "read_state_body e c i ! k = assign_mode_name"
      using len by (simp add: read_state_body_fields nth_append)
    with fail assign_mode_name_completes [of "(st, t1)"] show False by simp
  qed
  have tk: "take k (read_state_body e c i) = map assign_field (take k ?fs)"
    using k7 len by (simp add: read_state_body_fields take_map)
  have nk: "read_state_body e c i ! k = assign_field (?fs ! k)"
    using k7 len by (simp add: read_state_body_fields nth_append)
  have rd: "\<forall>f \<in> set (take k ?fs). reader (snd (snd f))"
    using telemetry_fields_readers [of e c i] by (meson in_set_takeD)
  have dk: "distinct (map fst (take k ?fs))"
    by (simp add: take_map [symmetric] telemetry_fields_keys)
  have fc: "map fst st = map fst ([]::state) @ map fst (take k ?fs) \<and> length t1 = length tr + length (take k ?fs)"
    by (rule fields_completed [OF rd dk]) (use pre tk in simp_all)
  then have keys: "map fst st = take k (map fst ?fs)" and lt1: "length t1 = length tr + k"
    using k7 len by (simp_all add: take_map)
  have rk: "reader (snd (snd (?fs ! k)))"
    using telemetry_fields_readers [of e c i] k7 len by (metis nth_mem)
  from assign_field_cases [OF rk, of st t1] fail nk
  obtain t2 where s2: "s2 = (st, t2)" and lt2: "length t2 = Suc (length t1)"
    by auto
  have noerr: "''error'' \<notin> fst ` set st"
  proof -
    have "set (map fst st) \<subseteq> set (map fst ?fs)" unfolding keys by (rule set_take_subset)
    then show ?thesis by (auto simp: telemetry_fields_keys)
  qed
  have split: "read_state_body e c i =
      take k (read_state_body e c i) @ (read_state_body e c i ! k) # drop (Suc k) (read_state_body e c i)"
    using k by (rule id_take_nth_drop)
  have "exec_block (read_state_body e c i) ([], tr) = (Some (DynamixelError m), (st, t2))"
    by (subst split) (simp add: exec_block_append pre fail s2)
  then have "read_state e c i tr = (Inr (AList.update ''error'' (PStr m) st), t2)"
    by (simp add: read_state_def)
  with update_new_key [OF noerr] keys lt1 lt2 s2 show ?thesis
    by (simp add: telemetry_fields_keys)
qed

theorem read_state_short_circuit_witness:
  "1 < length (read_state_body (bus_fault_at 64) ctl_A 1)
   \<and> exec_block (take 1 (read_state_body (bus_fault_at 64) ctl_A 1)) ([], []) =
       (None, ([(''operating_mode'', PInt 3)], [Read1 (Some (PortHandler ''COM1'')) 1 11]))
   \<and> (read_state_body (bus_fault_at 64) ctl_A 1 ! 1)
         ([(''operating_mode'', PInt 3)], [Read1 (Some (PortHandler ''COM1'')) 1 11]) =
       (Some (DynamixelError ''Failed to read (ID 1, addr 64): hardware error''),
        ([(''operating_mode'', PInt 3)],
         [Read1 (Some (PortHandler ''COM1'')) 1 11, Read1 (Some (PortHandler ''COM1'')) 1 64]))
   \<and> read_state (bus_fault_at 64) ctl_A 1 [] =
       (Inr ([(''operating_mode'', PInt 3)]
             @ [(''error'', PStr ''Failed to read (ID 1, addr 64): hardware error'')]),
        [Read1 (Some (PortHandler ''COM1'')) 1 11, Read1 (Some (PortHandler ''COM1'')) 1 64])"
proof -
  have h1: "1 < length (read_state_body (bus_fault_at 64) ctl_A 1)"
    by (simp add: read_state_body_def)
  have h2: "exec_block (take 1 (read_state_body (bus_fault_at 64) ctl_A 1)) ([], []) =
       (None, ([(''operating_mode'', PInt 3)], [Read1 (Some (PortHandler ''COM1'')) 1 11]))"
    by code_simp
  have h3: "(read_state_body (bus_fault_at 64) ctl_A 1 ! 1)
         ([(''operating_mode'', PInt 3)], [Read1 (Some (PortHandler ''COM1'')) 1 11]) =
       (Some (DynamixelError ''Failed to read (ID 1, addr 64): hardware error''),
        ([(''operating_mode'', PInt 3)],
         [Read1 (Some (PortHandler ''COM1'')) 1 11, Read1 (Some (PortHandler ''COM1'')) 1 64]))"
    by code_simp
  from read_state_short_circuit [OF h1 h2 h3] h1 h2 h3 show ?thesis by simp
qed

section \<open>C2: fault isolation between two devices\<close>

text \<open>
  C2. A controller is configured with two different ids \<open>a\<close> and \<open>b\<close>. Reading \<open>a\<close> ends
  with outcome \<open>ra\<close> and dictionary \<open>sa\<close>, and reading \<open>b\<close> after it with \<open>rb\<close> and
  \<open>sb\<close>. Then \<open>read_all\<close> does not raise and returns one entry per device, each decided
  by that device's own reads only: \<open>sa\<close> itself when the reads of \<open>a\<close> completed, and then
  it is a full telemetry dictionary with no error key; \<open>sa\<close> with the error message
  appended when a read of \<open>a\<close> raised, which can only be a \<open>DynamixelError\<close>; and the same
  for \<open>b\<close>. In particular a fault on one device leaves the other device's entry as it
  would be without the fault, and the cycle runs to its end.
\<close>

theorem telemetry_fault_isolation:
  assumes "ids c = [a, b]" and "a \<noteq> b"
    and "exec_block (read_state_body e c a) ([], tr) = (ra, (sa, t1))"
    and "exec_block (read_state_body e c b) ([], t1) = (rb, (sb, t2))"
  shows "read_all e c tr =
           (Inr [(a, case ra of None \<Rightarrow> sa | Some ex \<Rightarrow> sa @ [(''error'', PStr (str_exn ex))]),
                 (b, case rb of None \<Rightarrow> sb | Some ex \<Rightarrow> sb @ [(''error'', PStr (str_exn ex))])],
            t2)
       \<and> (ra = None \<longrightarrow> map fst sa = telemetry_keys)
       \<and> (ra \<noteq> None \<longrightarrow> ''error'' \<notin> set (map fst sa) \<and> (\<exists>m. ra = Some (DynamixelError m)))
       \<and> (rb = None \<longrightarrow> map fst sb = telemetry_keys)
       \<and> (rb \<noteq> None \<longrightarrow> ''error'' \<notin> set (map fst sb) \<and> (\<exists>m. rb = Some (DynamixelError m)))"
proof -
  have "read_all e c tr =
           (Inr [(a, case ra of None \<Rightarrow> sa | Some ex \<Rightarrow> sa @ [(''error'', PStr (str_exn ex))]),
                 (b, case rb of None \<Rightarrow> sb | Some ex \<Rightarrow> sb @ [(''error'', PStr (str_exn ex))])],
            t2)"
    using assms(1,2) read_state_of_body [OF assms(3)] read_state_of_body [OF assms(4)]
    by (simp add: read_all_def)
  moreover have "ra = None \<longrightarrow> map fst sa = telemetry_keys"
    using body_completed assms(3) by blast
  moreover have "rb = None \<longrightarrow> map fst sb = telemetry_keys"
    using body_completed assms(4) by blast
  moreover have "ra \<noteq> None \<longrightarrow> ''error'' \<notin> set (map fst sa) \<and> (\<exists>m. ra = Some (DynamixelError m))"
    using body_failed [of e c a tr _ sa t1] assms(3) by auto
  moreover have "rb \<noteq> None \<longrightarrow> ''error'' \<notin> set (map fst sb) \<and> (\<exists>m. rb = Some (DynamixelError m))"
    using body_failed [of e c b t1 _ sb t2] assms(4) by auto
  ultimately show ?thesis by blast
qed


theorem telemetry_fault_isolation_witness:
  "ids ctl_A = [1, 2] \<and> (1::int) \<noteq> 2
   \<and> exec_block (read_state_body (bus_fault_of 2) ctl_A 1) ([], []) =
       (None, (state_ok, reads_of 1))
   \<and> exec_block (read_state_body (bus_fault_of 2) ctl_A 2) ([], reads_of 1) =
       (Some (DynamixelError ''Failed to read (ID 2, addr 11): hardware error''),
        ([], reads_of 1 @ [Read1 (Some (PortHandler ''COM1'')) 2 11]))
   \<and> read_all (bus_fault_of 2) ctl_A [] =
       (Inr [(1, state_ok),
             (2, [(''error'', PStr ''Failed to read (ID 2, addr 11): hardware error'')])],
        reads_of 1 @ [Read1 (Some (PortHandler ''COM1'')) 2 11])
   \<and> map fst state_ok = telemetry_keys
   \<and> ids ctl_B = [2, 1] \<and> (2::int) \<noteq> 1
   \<and> read_all (bus_fault_of 2) ctl_B [] =
       (Inr [(2, [(''error'', PStr ''Failed to read (ID 2, addr 11): hardware error'')]),
             (1, state_ok)],
        Read1 (Some (PortHandler ''COM1'')) 2 11 # reads_of 1)"
proof -
  have a1: "ids ctl_A = [1, 2]" by (simp add: ctl_A_def)
  have a2: "(1::int) \<noteq> 2" by simp
  have a3: "exec_block (read_state_body (bus_fault_of 2) ctl_A 1) ([], []) =
       (None, (state_ok, reads_of 1))"
    by code_simp
  have a4: "exec_block (read_state_body (bus_fault_of 2) ctl_A 2) ([], reads_of 1) =
       (Some (DynamixelError ''Failed to read (ID 2, addr 11): hardware error''),
        ([], reads_of 1 @ [Read1 (Some (PortHandler ''COM1'')) 2 11]))"
    by code_simp
  have b1: "ids ctl_B = [2, 1]" by (simp add: ctl_B_def)
  have b2: "(2::int) \<noteq> 1" by simp
  have b3: "exec_block (read_state_body (bus_fault_of 2) ctl_B 2) ([], []) =
       (Some (DynamixelError ''Failed to read (ID 2, addr 11): hardware error''),
        ([], [Read1 (Some (PortHandler ''COM1'')) 2 11]))"
    by code_simp
  have b4: "exec_block (read_state_body (bus_fault_of 2) ctl_B 1)
              ([], [Read1 (Some (PortHandler ''COM1'')) 2 11]) =
       (None, (state_ok, Read1 (Some (PortHandler ''COM1'')) 2 11 # reads_of 1))"
    by code_simp
  from telemetry_fault_isolation [OF a1 a2 a3 a4] telemetry_fault_isolation [OF b1 b2 b3 b4]
    a1 a2 a3 a4 b1 b2
  show ?thesis by simp
qed

section \<open>C3: the codec round trip\<close>

text \<open>
  C3. For each width, writing a representable value (the mask of \<^verbatim>\<open>_writeN\<close>) and reading
  the masked value back (the sign recovery of \<^verbatim>\<open>_readN\<close>) returns the value: unsigned
  for width 1, signed two's complement for widths 2 and 4. A masked value whose top bit is
  set reads back negative for widths 2 and 4.
\<close>

theorem codec_roundtrip:
  "(0 \<le> v1 \<and> v1 < 256 \<longrightarrow> read1_ret (write1_arg v1) = v1)
   \<and> (- 32768 \<le> v2 \<and> v2 < 32768 \<longrightarrow> read2_ret (write2_arg v2) = v2)
   \<and> (- 2147483648 \<le> v4 \<and> v4 < 2147483648 \<longrightarrow> read4_ret (write4_arg v4) = v4)
   \<and> (write2_arg u2 AND 0x8000 \<noteq> 0 \<longrightarrow> read2_ret (write2_arg u2) < 0)
   \<and> (write4_arg u4 AND 0x80000000 \<noteq> 0 \<longrightarrow> read4_ret (write4_arg u4) < 0)"
proof -
  have r2: "0 \<le> write2_arg u2" "write2_arg u2 < 65536"
    by (simp_all add: write2_arg_def and_ffff_mod)
  have r4: "0 \<le> write4_arg u4" "write4_arg u4 < 4294967296"
    by (simp_all add: write4_arg_def and_ffffffff_mod)
  show ?thesis
    using roundtrip1 [of v1] roundtrip2 [of v2] roundtrip4 [of v4]
      top_set_negative2 [OF r2] top_set_negative4 [OF r4]
    by blast
qed

theorem codec_roundtrip_witness:
  "(0::int) \<le> 200 \<and> (200::int) < 256 \<and> read1_ret (write1_arg 200) = 200
   \<and> - 32768 \<le> (- 5::int) \<and> (- 5::int) < 32768 \<and> read2_ret (write2_arg (- 5)) = - 5
   \<and> - 2147483648 \<le> (- 70000::int) \<and> (- 70000::int) < 2147483648
   \<and> read4_ret (write4_arg (- 70000)) = - 70000
   \<and> write2_arg (- 5) AND 0x8000 \<noteq> 0 \<and> read2_ret (write2_arg (- 5)) < 0
   \<and> write4_arg (- 70000) AND 0x80000000 \<noteq> 0 \<and> read4_ret (write4_arg (- 70000)) < 0"
proof -
  have a: "write2_arg (- 5) = 65531" by (simp add: write2_arg_def and_ffff_mod)
  have b: "write4_arg (- 70000) = 4294897296" by (simp add: write4_arg_def and_ffffffff_mod)
  have c: "(65531::int) AND 0x8000 \<noteq> 0" by (simp add: top_bit16)
  have d: "(4294897296::int) AND 0x80000000 \<noteq> 0" by (simp add: top_bit32)
  show ?thesis
    using codec_roundtrip [of 200 "- 5" "- 70000" "- 5" "- 70000"] a b c d by simp
qed

section \<open>C4: connecting while a session is active\<close>

text \<open>
  C4. A controller \<open>A\<close> is active and holds a port handler. Then \<open>connect_controller\<close>
  first calls \<open>closePort\<close> on the handle of \<open>A\<close>, whatever that call answers, and next
  \<open>openPort\<close> on a handle for the requested port. When the constructor returns a
  controller \<open>B\<close>, the call reports success, \<open>B\<close> is the active controller and carries
  exactly the requested port, baud rate and ids, the metadata is that of the request and
  the last error is cleared. When the constructor raises, the call reports the failure with
  its message, no controller is active and the message is recorded as last error. The
  report is the one a connect from the disconnected state gives on the same bus after that
  \<open>closePort\<close>: having been connected causes no error of its own.
\<close>

theorem connect_replaces:
  assumes "dxl g = Some A" and "port_handler A = Some hA"
  shows "\<exists>rest.
     (case DynamixelController e port baud dxl_ids (tr @ [ClosePort (Some hA)]) of
        (Inr B, tr2) \<Rightarrow>
          connect_controller e port baud dxl_ids g tr =
            ((True, ''Connected successfully.''),
             g\<lparr>dxl := Some B,
               connection_info := \<lparr>info_port = Some port, info_baudrate = Some baud,
                                    info_ids = dxl_ids\<rparr>,
               dxl_error_message := None\<rparr>,
             tr2)
          \<and> B = \<lparr>port_name = port, baudrate = baud, ids = dxl_ids,
                  port_handler = Some (PortHandler port)\<rparr>
      | (Inl ex, tr2) \<Rightarrow>
          connect_controller e port baud dxl_ids g tr =
            ((False, ''Failed to connect: '' @ str_exn ex),
             g\<lparr>dxl := None, dxl_error_message := Some (str_exn ex)\<rparr>,
             tr2))
     \<and> snd (snd (connect_controller e port baud dxl_ids g tr)) =
         tr @ ClosePort (Some hA) # OpenPort (Some (PortHandler port)) # rest
     \<and> fst (connect_controller e port baud dxl_ids g tr) =
         fst (connect_controller e port baud dxl_ids (g\<lparr>dxl := None\<rparr>)
                (tr @ [ClosePort (Some hA)]))"
proof -
  let ?t1 = "tr @ [ClosePort (Some hA)]"
  have cl: "snd (close e A tr) = ?t1"
    using assms(2) by (simp add: close_def split: option.splits)
  from DynamixelController_result [of e port baud dxl_ids ?t1]
  obtain rest where tr2: "snd (DynamixelController e port baud dxl_ids ?t1) =
        ?t1 @ OpenPort (Some (PortHandler port)) # rest"
    and B: "\<forall>ctl. fst (DynamixelController e port baud dxl_ids ?t1) = Inr ctl \<longrightarrow>
                ctl = \<lparr>port_name = port, baudrate = baud, ids = dxl_ids,
                       port_handler = Some (PortHandler port)\<rparr>"
    by blast
  show ?thesis
  proof (cases "DynamixelController e port baud dxl_ids ?t1")
    case (Pair r t2)
    show ?thesis
    proof (cases r)
      case (Inl ex)
      with Pair tr2 assms(1) cl show ?thesis
        by (intro exI [of _ rest]) (simp add: connect_controller_def)
    next
      case (Inr ctl)
      with Pair B have "ctl = \<lparr>port_name = port, baudrate = baud, ids = dxl_ids,
                       port_handler = Some (PortHandler port)\<rparr>" by simp
      with Inr Pair tr2 assms(1) cl show ?thesis
        by (intro exI [of _ rest]) (simp add: connect_controller_def)
    qed
  qed
qed

theorem connect_replaces_witness:
  "dxl app_A = Some ctl_A \<and> port_handler ctl_A = Some (PortHandler ''COM1'')
   \<and> connect_controller (bus_with [3]) ''COM2'' 1000000 [3, 4] app_A [] =
       ((True, ''Connected successfully.''),
        \<lparr>dxl = Some \<lparr>port_name = ''COM2'', baudrate = 1000000, ids = [3, 4],
                      port_handler = Some (PortHandler ''COM2'')\<rparr>,
         connection_info = \<lparr>info_port = Some ''COM2'', info_baudrate = Some 1000000,
                              info_ids = [3, 4]\<rparr>,
         dxl_error_message = None\<rparr>,
        [ClosePort (Some (PortHandler ''COM1'')), OpenPort (Some (PortHandler ''COM2'')),
         SetBaudRate (Some (PortHandler ''COM2'')) 1000000,
         Ping (Some (PortHandler ''COM2'')) 3, Ping (Some (PortHandler ''COM2'')) 4])
   \<and> connect_controller bus_closed ''COM2'' 1000000 [3, 4] app_A [] =
       ((False, ''Failed to connect: Failed to open port COM2''),
        \<lparr>dxl = None,
         connection_info = \<lparr>info_port = Some ''COM1'', info_baudrate = Some 57600,
                              info_ids = [1, 2]\<rparr>,
         dxl_error_message = Some ''Failed to open port COM2''\<rparr>,
        [ClosePort (Some (PortHandler ''COM1'')), OpenPort (Some (PortHandler ''COM2''))])"
proof -
  have h1: "dxl app_A = Some ctl_A" by (simp add: app_A_def)
  have h2: "port_handler ctl_A = Some (PortHandler ''COM1'')" by (simp add: ctl_A_def)
  have k1: "DynamixelController (bus_with [3]) ''COM2'' 1000000 [3, 4]
              ([] @ [ClosePort (Some (PortHandler ''COM1''))]) =
      (Inr \<lparr>port_name = ''COM2'', baudrate = 1000000, ids = [3, 4],
             port_handler = Some (PortHandler ''COM2'')\<rparr>,
       [ClosePort (Some (PortHandler ''COM1'')), OpenPort (Some (PortHandler ''COM2'')),
         SetBaudRate (Some (PortHandler ''COM2'')) 1000000,
         Ping (Some (PortHandler ''COM2'')) 3, Ping (Some (PortHandler ''COM2'')) 4])"
    by code_simp
  have k2: "DynamixelController bus_closed ''COM2'' 1000000 [3, 4]
              ([] @ [ClosePort (Some (PortHandler ''COM1''))]) =
      (Inl (DynamixelError ''Failed to open port COM2''),
       [ClosePort (Some (PortHandler ''COM1'')), OpenPort (Some (PortHandler ''COM2''))])"
    by code_simp
  from connect_replaces [OF h1 h2, of "bus_with [3]" "''COM2''" 1000000 "[3, 4]" "[]"]
  have w1: "connect_controller (bus_with [3]) ''COM2'' 1000000 [3, 4] app_A [] =
       ((True, ''Connected successfully.''),
        app_A\<lparr>dxl := Some \<lparr>port_name = ''COM2'', baudrate = 1000000, ids = [3, 4],
                      port_handler = Some (PortHandler ''COM2'')\<rparr>,
         connection_info := \<lparr>info_port = Some ''COM2'', info_baudrate = Some 1000000,
                              info_ids = [3, 4]\<rparr>,
         dxl_error_message := None\<rparr>,
        [ClosePort (Some (PortHandler ''COM1'')), OpenPort (Some (PortHandler ''COM2'')),
         SetBaudRate (Some (PortHandler ''COM2'')) 1000000,
         Ping (Some (PortHandler ''COM2'')) 3, Ping (Some (PortHandler ''COM2'')) 4])"
    unfolding k1 by (elim exE conjE) simp
  from connect_replaces [OF h1 h2, of bus_closed "''COM2''" 1000000 "[3, 4]" "[]"]
  have w2: "connect_controller bus_closed ''COM2'' 1000000 [3, 4] app_A [] =
       ((False, ''Failed to connect: Failed to open port COM2''),
        app_A\<lparr>dxl := None, dxl_error_message := Some ''Failed to open port COM2''\<rparr>,
        [ClosePort (Some (PortHandler ''COM1'')), OpenPort (Some (PortHandler ''COM2''))])"
    unfolding k2 by (elim exE conjE) simp
  show ?thesis
    unfolding w1 w2 using h1 h2 by (simp add: app_A_def)
qed


section \<open>C5: closing a session\<close>





section \<open>C6: the outcome of the command handlers\<close>

text \<open>
  The class defines \<^verbatim>\<open>set_pid\<close> and neither of the two methods that \<^verbatim>\<open>handle_set_pid\<close>
  calls, so on a connected controller the handler is left by an exception that its
  \<^verbatim>\<open>except DynamixelError\<close> does not catch (from \<^verbatim>\<open>int\<close>, or the \<open>AttributeError\<close> of
  the first call): it emits nothing and no exchange reaches the bus.
\<close>

lemma no_pid_gain_methods:
  "call_method e ctl ''set_position_pid_gains'' args tr =
     (Some (AttributeError
        (quoted ''DynamixelController'' @ '' object has no attribute ''
         @ quoted ''set_position_pid_gains'')), tr)"
  by (simp add: call_method_def instance_attributes_def class_methods_def)

lemma handle_set_pid_never_reports:
  assumes "dxl g = Some ctl"
  shows "fst (handle_set_pid e g message tr) = []
       \<and> fst (snd (handle_set_pid e g message tr)) \<noteq> None
       \<and> snd (snd (handle_set_pid e g message tr)) = tr"
  using assms
  by (simp add: handle_set_pid_def on_value_def no_pid_gain_methods split: sum.splits)

text \<open>
  C6. A well-formed \<^verbatim>\<open>set_pid\<close> message for device 1 against a connected controller on a
  bus where every exchange succeeds: no log entry is emitted, neither for success nor for
  failure, and the handler is left by \<open>AttributeError\<close>.
\<close>

theorem handle_set_pid_attribute_error:
  "handle_set_pid bus_ok app_A [''id'' \<mapsto> JNum 1, ''P'' \<mapsto> JNum 800] [] =
     ([], Some (AttributeError
        (quoted ''DynamixelController'' @ '' object has no attribute ''
         @ quoted ''set_position_pid_gains'')), [])"
  by code_simp

section \<open>C7: the write sequence of set\_operating\_mode\<close>

text \<open>
  On the bus whose operating-mode register (address 11) reports a device status, the
  torque is switched off, the mode write fails and the method raises: the torque-enable
  write is never issued.
\<close>

theorem set_operating_mode_counterexample:
  "set_operating_mode (bus_fault_at 11) ctl_A 1 3 True [] =
     (Some (DynamixelError ''Failed to write (ID 1, addr 11): hardware error''),
      [Write1 (Some (PortHandler ''COM1'')) 1 64 0, Write1 (Some (PortHandler ''COM1'')) 1 11 3])"
  by code_simp

text \<open>
  C7, amended. With \<open>auto_torque\<close>, \<open>set_operating_mode\<close> issues the torque-disable write
  and then the operating-mode write; when the mode write succeeds it issues the
  torque-enable write as third and last call and its outcome is that write's outcome; when
  the mode write fails it raises that failure and issues nothing more. The outcome of the
  torque-disable write does not enter the result: a fault of that step is passed over.
\<close>

theorem set_operating_mode_sequence:
  "set_operating_mode e c i mode True tr =
     (let t1 = tr @ [Write1 (port_handler c) i ADDR_TORQUE_ENABLE 0];
          t2 = t1 @ [Write1 (port_handler c) i ADDR_OPERATING_MODE (mode AND 0xFF)];
          t3 = t2 @ [Write1 (port_handler c) i ADDR_TORQUE_ENABLE 1]
      in if fst (write1 e c i ADDR_OPERATING_MODE mode t1) = None
           then (fst (write1 e c i ADDR_TORQUE_ENABLE 1 t2), t3)
         else (fst (write1 e c i ADDR_OPERATING_MODE mode t1), t2))"
proof -
  let ?t1 = "tr @ [Write1 (port_handler c) i ADDR_TORQUE_ENABLE 0]"
  let ?t2 = "?t1 @ [Write1 (port_handler c) i ADDR_OPERATING_MODE (mode AND 0xFF)]"
  let ?t3 = "?t2 @ [Write1 (port_handler c) i ADDR_TORQUE_ENABLE 1]"
  obtain r0 where r0: "write1 e c i ADDR_TORQUE_ENABLE 0 tr = (r0, ?t1)"
    using write1_trace [of e c i ADDR_TORQUE_ENABLE 0 tr]
    by (cases "write1 e c i ADDR_TORQUE_ENABLE 0 tr") (simp add: write1_arg_def)
  have r0': "r0 = None \<or> (\<exists>m. r0 = Some (DynamixelError m))"
    using write1_raises [of e c i ADDR_TORQUE_ENABLE 0 tr] r0 by (cases r0) auto
  obtain r1 where r1: "write1 e c i ADDR_OPERATING_MODE mode ?t1 = (r1, ?t2)"
    using write1_trace [of e c i ADDR_OPERATING_MODE mode ?t1]
    by (cases "write1 e c i ADDR_OPERATING_MODE mode ?t1") (simp add: write1_arg_def)
  obtain r2 where r2: "write1 e c i ADDR_TORQUE_ENABLE 1 ?t2 = (r2, ?t3)"
    using write1_trace [of e c i ADDR_TORQUE_ENABLE 1 ?t2]
    by (cases "write1 e c i ADDR_TORQUE_ENABLE 1 ?t2") (simp add: write1_arg_def)
  show ?thesis
    using r0' r0 r1 r2
    by (cases r1; cases r2) (auto simp: set_operating_mode_def set_torque_def Let_def)
qed

section \<open>C8: the writes of set\_goals\<close>

text \<open>
  On the bus whose profile-acceleration register (address 108) reports a device status,
  a call with profileAccel and position present writes profileAccel, raises, and never
  writes the position, though that field is present.
\<close>

theorem set_goals_counterexample:
  "set_goals (bus_fault_at 108) ctl_A 1 (Some 100) None None None None (Some 5) [] =
     (Some (DynamixelError ''Failed to write (ID 1, addr 108): hardware error''),
      [Write4 (Some (PortHandler ''COM1'')) 1 108 5])"
  by code_simp

text \<open>
  C8, amended. \<open>set_goals\<close> issues the writes of the present fields, each masked to its
  register width, in the order profileAccel, profileVelocity, pwm, current, velocity,
  position, one after the other until the first one fails: it does exactly what
  \<open>spec_run_writes\<close> does on \<open>spec_goal_writes\<close>. Spelled out: the writes issued are an
  initial part of that list, so an absent field is never written and no write is out of
  order; every issued write but the last one succeeded, and the outcome of the last one is
  the outcome of the call. Hence a call that completes has written exactly the present
  fields, and a call that raises has issued the failing write last, raises that write's
  error at once, and has left the present fields after it unwritten.
\<close>

theorem set_goals_writes_in_order:
  "set_goals e c i gp gv gc gpwm pv pa tr =
     spec_run_writes e tr (spec_goal_writes c i gp gv gc gpwm pv pa)
   \<and> (\<exists>issued rest.
         snd (set_goals e c i gp gv gc gpwm pv pa tr) = tr @ issued
         \<and> spec_goal_writes c i gp gv gc gpwm pv pa = issued @ rest
         \<and> (fst (set_goals e c i gp gv gc gpwm pv pa tr) = None \<longrightarrow> rest = [])
         \<and> (fst (set_goals e c i gp gv gc gpwm pv pa tr) \<noteq> None \<longrightarrow> issued \<noteq> [])
         \<and> (\<forall>k < length issued.
               write_outcome e (tr @ take k issued) (issued ! k) =
                 (if Suc k = length issued then fst (set_goals e c i gp gv gc gpwm pv pa tr)
                  else None)))"
proof -
  let ?as = "[if_not_None pa (write4 e c i ADDR_PROFILE_ACCEL),
              if_not_None pv (write4 e c i ADDR_PROFILE_VELOCITY),
              if_not_None gpwm (write2 e c i ADDR_GOAL_PWM),
              if_not_None gc (write2 e c i ADDR_GOAL_CURRENT),
              if_not_None gv (write4 e c i ADDR_GOAL_VELOCITY),
              if_not_None gp (write4 e c i ADDR_GOAL_POSITION)]"
  let ?ws = "[present_write pa (\<lambda>v. Write4 (port_handler c) i ADDR_PROFILE_ACCEL (v AND 0xFFFFFFFF)),
              present_write pv (\<lambda>v. Write4 (port_handler c) i ADDR_PROFILE_VELOCITY (v AND 0xFFFFFFFF)),
              present_write gpwm (\<lambda>v. Write2 (port_handler c) i ADDR_GOAL_PWM (v AND 0xFFFF)),
              present_write gc (\<lambda>v. Write2 (port_handler c) i ADDR_GOAL_CURRENT (v AND 0xFFFF)),
              present_write gv (\<lambda>v. Write4 (port_handler c) i ADDR_GOAL_VELOCITY (v AND 0xFFFFFFFF)),
              present_write gp (\<lambda>v. Write4 (port_handler c) i ADDR_GOAL_POSITION (v AND 0xFFFFFFFF))]"
  have w4: "if_not_None x (write4 e c i a) t =
              spec_run_writes e t
                (present_write x (\<lambda>v. Write4 (port_handler c) i a (v AND 0xFFFFFFFF)))" for x a t
    by (rule if_not_None_writes) (rule write4_outcome)
  have w2: "if_not_None x (write2 e c i a) t =
              spec_run_writes e t
                (present_write x (\<lambda>v. Write2 (port_handler c) i a (v AND 0xFFFF)))" for x a t
    by (rule if_not_None_writes) (rule write2_outcome)
  have "list_all2 (\<lambda>a ws. \<forall>t. a t = spec_run_writes e t ws) ?as ?ws"
    by (simp add: w4 w2)
  from exec_block_writes [OF this, of tr]
  have eq: "set_goals e c i gp gv gc gpwm pv pa tr =
     spec_run_writes e tr (spec_goal_writes c i gp gv gc gpwm pv pa)"
    by (simp add: set_goals_def spec_goal_writes_def)
  show ?thesis
    unfolding eq
    using spec_run_writes_stops [of e tr "spec_goal_writes c i gp gv gc gpwm pv pa"]
    by simp
qed

theorem set_goals_writes_in_order_witness:
  "set_goals bus_ok ctl_A 1 (Some 100) None (Some (- 3)) None None (Some 5) [] =
     (None, spec_goal_writes ctl_A 1 (Some 100) None (Some (- 3)) None None (Some 5))
   \<and> set_goals (bus_fault_at 102) ctl_A 1 (Some 100) None (Some (- 3)) None None (Some 5) [] =
       (Some (DynamixelError ''Failed to write (ID 1, addr 102): hardware error''),
        [Write4 (Some (PortHandler ''COM1'')) 1 108 5,
         Write2 (Some (PortHandler ''COM1'')) 1 102 65533])"
proof -
  have r1: "spec_run_writes bus_ok []
              (spec_goal_writes ctl_A 1 (Some 100) None (Some (- 3)) None None (Some 5)) =
            (None, spec_goal_writes ctl_A 1 (Some 100) None (Some (- 3)) None None (Some 5))"
    by code_simp
  have r2: "spec_run_writes (bus_fault_at 102) []
              (spec_goal_writes ctl_A 1 (Some 100) None (Some (- 3)) None None (Some 5)) =
            (Some (DynamixelError ''Failed to write (ID 1, addr 102): hardware error''),
             [Write4 (Some (PortHandler ''COM1'')) 1 108 5,
              Write2 (Some (PortHandler ''COM1'')) 1 102 65533])"
    by code_simp
  from set_goals_writes_in_order
         [of bus_ok ctl_A 1 "Some 100" None "Some (- 3)" None None "Some 5" "[]"]
  have w1: "set_goals bus_ok ctl_A 1 (Some 100) None (Some (- 3)) None None (Some 5) [] =
     (None, spec_goal_writes ctl_A 1 (Some 100) None (Some (- 3)) None None (Some 5))"
    unfolding r1 by (elim conjE)
  from set_goals_writes_in_order
         [of "bus_fault_at 102" ctl_A 1 "Some 100" None "Some (- 3)" None None "Some 5" "[]"]
  have w2: "set_goals (bus_fault_at 102) ctl_A 1 (Some 100) None (Some (- 3)) None None
              (Some 5) [] =
       (Some (DynamixelError ''Failed to write (ID 1, addr 102): hardware error''),
        [Write4 (Some (PortHandler ''COM1'')) 1 108 5,
         Write2 (Some (PortHandler ''COM1'')) 1 102 65533])"
    unfolding r2 by (elim conjE)
  from w1 w2 show ?thesis by (rule conjI)
qed

section \<open>C9: the sweep does not stop at an id that fails\<close>

text \<open>
  C9. The message names a port, the port opens and the baud rate is set. Then the scan pings
  every id of the normalised range \<open>lo\<close> to \<open>hi\<close>, each exactly once and in ascending
  order, and closes the port; it reports success with exactly the ids whose ping answered,
  in ascending order and without repetition. A ping answered when it returned with
  \<open>COMM_SUCCESS\<close> and device status 0 (\<open>responds\<close>): a ping that raises, one that
  reports a transport failure and one that reports a device status all count as the id
  being absent, and none of them ends the sweep. The answer of the bus to the ping of \<open>i\<close>
  is taken at the trace of that moment, after the pings of \<open>lo\<close> to \<open>i - 1\<close>.
\<close>

theorem scan_finds_exactly_the_responding_ids:
  fixes e :: env and message :: message and tr :: trace
  defines "port \<equiv> msg_get message ''port''"
    and "h \<equiv> Some (PortHandler (str_jval (msg_get message ''port'')))"
    and "baud \<equiv> scan_baudrate e message"
    and "lo \<equiv> fst (scan_bounds e message)"
    and "hi \<equiv> snd (scan_bounds e message)"
  defines "tr2 \<equiv> tr @ [OpenPort h, SetBaudRate h baud]"
  assumes "truthy port" and "openPort e tr h" and "setBaudRate e (tr @ [OpenPort h]) h baud"
  shows "\<exists>msg found_ids.
           handle_scan_servos e message tr =
             ([Scan_result True msg found_ids (Some (port, baud, lo, hi))],
              tr2 @ map (Ping h) [lo..hi] @ [ClosePort h])
           \<and> found_ids = filter (\<lambda>i. responds e (tr2 @ map (Ping h) [lo..i - 1]) h i) [lo..hi]
           \<and> sorted found_ids \<and> distinct found_ids \<and> lo \<le> hi"
proof -
  let ?found = "filter (\<lambda>i. responds e (tr2 @ map (Ping h) [lo..i - 1]) h i) [lo..hi]"
  let ?msg = "if ?found \<noteq> [] then ''Found IDs: '' @ repr_int_list ?found
              else ''No servos responded on '' @ str_jval port @ '' @ '' @ str_int baud
                   @ '' in range '' @ str_int lo @ ''-'' @ str_int hi @ ''.''"
  have p: "truthy (msg_get message ''port'')" using assms(7) unfolding port_def .
  have q: "openPort e tr (Some (PortHandler (str_jval (msg_get message ''port''))))"
    using assms(8) unfolding h_def .
  have r: "setBaudRate e
         (tr @ [OpenPort (Some (PortHandler (str_jval (msg_get message ''port''))))])
         (Some (PortHandler (str_jval (msg_get message ''port'')))) (scan_baudrate e message)"
    using assms(9) unfolding h_def baud_def .
  have sw: "handle_scan_servos e message tr =
      ([Scan_result True ?msg ?found (Some (port, baud, lo, hi))],
       tr2 @ map (Ping h) [lo..hi] @ [ClosePort h])"
    using handle_scan_sweep [OF p q r]
    unfolding Let_def port_def h_def baud_def lo_def hi_def tr2_def .
  have s: "sorted ?found" by (rule sorted_filter_upto)
  have d: "distinct ?found" by simp
  have o: "lo \<le> hi" unfolding lo_def hi_def by (rule scan_bounds_ordered)
  show ?thesis
    by (rule exI [of _ ?msg], rule exI [of _ ?found]) (intro conjI sw refl s d o)
qed

theorem scan_finds_exactly_the_responding_ids_witness:
  "truthy (msg_get scan_request ''port'')
   \<and> openPort (bus_with [3, 7]) [] com3
   \<and> setBaudRate (bus_with [3, 7]) [OpenPort com3] com3 57600
   \<and> (\<exists>msg. handle_scan_servos (bus_with [3, 7]) scan_request [] =
         ([Scan_result True msg [3, 7] (Some (JStr ''COM3'', 57600, 1, 10))],
          [OpenPort com3, SetBaudRate com3 57600, Ping com3 1, Ping com3 2, Ping com3 3,
           Ping com3 4, Ping com3 5, Ping com3 6, Ping com3 7, Ping com3 8, Ping com3 9,
           Ping com3 10, ClosePort com3]))"
proof -
  let ?e = "bus_with [3, 7]"
  let ?port = "msg_get scan_request ''port''"
  let ?h = "Some (PortHandler (str_jval (msg_get scan_request ''port'')))"
  let ?baud = "scan_baudrate ?e scan_request"
  let ?lo = "fst (scan_bounds ?e scan_request)"
  let ?hi = "snd (scan_bounds ?e scan_request)"
  have h1: "truthy ?port" by code_simp
  have h2: "openPort ?e [] ?h" by code_simp
  have h3: "setBaudRate ?e ([] @ [OpenPort ?h]) ?h ?baud" by code_simp
  have e1: "?port = JStr ''COM3''" by code_simp
  have e2: "?h = com3" by code_simp
  have e3: "?baud = 57600" by code_simp
  have e4: "?lo = 1" by code_simp
  have e5: "?hi = 10" by code_simp
  have e6: "filter (\<lambda>i. responds ?e (([] @ [OpenPort ?h, SetBaudRate ?h ?baud])
                                        @ map (Ping ?h) [?lo..i - 1]) ?h i) [?lo..?hi] = [3, 7]"
    by code_simp
  have e7: "([] @ [OpenPort ?h, SetBaudRate ?h ?baud]) @ map (Ping ?h) [?lo..?hi] @ [ClosePort ?h] =
      [OpenPort com3, SetBaudRate com3 57600, Ping com3 1, Ping com3 2, Ping com3 3,
           Ping com3 4, Ping com3 5, Ping com3 6, Ping com3 7, Ping com3 8, Ping com3 9,
           Ping com3 10, ClosePort com3]"
    by code_simp
  from scan_finds_exactly_the_responding_ids [OF h1 h2 h3]
  obtain msg found_ids where
    a: "handle_scan_servos ?e scan_request [] =
          ([Scan_result True msg found_ids (Some (?port, ?baud, ?lo, ?hi))],
           ([] @ [OpenPort ?h, SetBaudRate ?h ?baud]) @ map (Ping ?h) [?lo..?hi] @ [ClosePort ?h])"
    and b: "found_ids = filter (\<lambda>i. responds ?e (([] @ [OpenPort ?h, SetBaudRate ?h ?baud])
                                        @ map (Ping ?h) [?lo..i - 1]) ?h i) [?lo..?hi]"
    by (elim exE conjE)
  have "handle_scan_servos ?e scan_request [] =
         ([Scan_result True msg [3, 7] (Some (JStr ''COM3'', 57600, 1, 10))],
          [OpenPort com3, SetBaudRate com3 57600, Ping com3 1, Ping com3 2, Ping com3 3,
           Ping com3 4, Ping com3 5, Ping com3 6, Ping com3 7, Ping com3 8, Ping com3 9,
           Ping com3 10, ClosePort com3])"
    using a unfolding b e6 e7 unfolding e1 e3 e4 e5 .
  then have c: "\<exists>msg. handle_scan_servos ?e scan_request [] =
         ([Scan_result True msg [3, 7] (Some (JStr ''COM3'', 57600, 1, 10))],
          [OpenPort com3, SetBaudRate com3 57600, Ping com3 1, Ping com3 2, Ping com3 3,
           Ping com3 4, Ping com3 5, Ping com3 6, Ping com3 7, Ping com3 8, Ping com3 9,
           Ping com3 10, ClosePort com3])" ..
  have g2: "openPort ?e [] com3" using h2 unfolding e2 .
  have g3: "setBaudRate ?e [OpenPort com3] com3 57600" using h3 unfolding e2 e3 by simp
  from h1 g2 g3 c show ?thesis by (intro conjI)
qed


section \<open>C10: a sweep that finds nothing\<close>

text \<open>
  C10. The message names a port, the port opens and the baud rate is set, and no id of the
  range answers its ping. Then the scan emits one \<^verbatim>\<open>scan_result\<close> with \<open>ok\<close> true, the
  empty id list, and the message that no servos responded on that port at that baud rate
  in that range.
\<close>

theorem empty_scan_is_a_success:
  fixes e :: env and message :: message and tr :: trace
  defines "port \<equiv> msg_get message ''port''"
    and "h \<equiv> Some (PortHandler (str_jval (msg_get message ''port'')))"
    and "baud \<equiv> scan_baudrate e message"
    and "lo \<equiv> fst (scan_bounds e message)"
    and "hi \<equiv> snd (scan_bounds e message)"
  defines "tr2 \<equiv> tr @ [OpenPort h, SetBaudRate h baud]"
  assumes "truthy port" and "openPort e tr h" and "setBaudRate e (tr @ [OpenPort h]) h baud"
    and "\<forall>i \<in> set [lo..hi]. \<not> responds e (tr2 @ map (Ping h) [lo..i - 1]) h i"
  shows "fst (handle_scan_servos e message tr) =
           [Scan_result True
              (''No servos responded on '' @ str_jval port @ '' @ '' @ str_int baud
               @ '' in range '' @ str_int lo @ ''-'' @ str_int hi @ ''.'')
              [] (Some (port, baud, lo, hi))]"
proof -
  let ?found = "filter (\<lambda>i. responds e (tr2 @ map (Ping h) [lo..i - 1]) h i) [lo..hi]"
  let ?msg = "if ?found \<noteq> [] then ''Found IDs: '' @ repr_int_list ?found
              else ''No servos responded on '' @ str_jval port @ '' @ '' @ str_int baud
                   @ '' in range '' @ str_int lo @ ''-'' @ str_int hi @ ''.''"
  have none: "?found = []"
    using assms(10) by (simp only: filter_empty_conv)
  have p: "truthy (msg_get message ''port'')" using assms(7) unfolding port_def .
  have q: "openPort e tr (Some (PortHandler (str_jval (msg_get message ''port''))))"
    using assms(8) unfolding h_def .
  have r: "setBaudRate e
         (tr @ [OpenPort (Some (PortHandler (str_jval (msg_get message ''port''))))])
         (Some (PortHandler (str_jval (msg_get message ''port'')))) (scan_baudrate e message)"
    using assms(9) unfolding h_def baud_def .
  have sw: "handle_scan_servos e message tr =
      ([Scan_result True ?msg ?found (Some (port, baud, lo, hi))],
       tr2 @ map (Ping h) [lo..hi] @ [ClosePort h])"
    using handle_scan_sweep [OF p q r]
    unfolding Let_def port_def h_def baud_def lo_def hi_def tr2_def .
  show ?thesis unfolding sw none by simp
qed

theorem empty_scan_is_a_success_witness:
  "truthy (msg_get scan_request_small ''port'')
   \<and> openPort (bus_with []) [] com3
   \<and> setBaudRate (bus_with []) [OpenPort com3] com3 57600
   \<and> \<not> responds (bus_with []) [OpenPort com3, SetBaudRate com3 57600] com3 2
   \<and> \<not> responds (bus_with []) [OpenPort com3, SetBaudRate com3 57600, Ping com3 2] com3 3
   \<and> \<not> responds (bus_with [])
         [OpenPort com3, SetBaudRate com3 57600, Ping com3 2, Ping com3 3] com3 4
   \<and> fst (handle_scan_servos (bus_with []) scan_request_small []) =
       [Scan_result True ''No servos responded on COM3 @ 57600 in range 2-4.'' []
          (Some (JStr ''COM3'', 57600, 2, 4))]"
proof -
  let ?e = "bus_with []"
  let ?port = "msg_get scan_request_small ''port''"
  let ?h = "Some (PortHandler (str_jval (msg_get scan_request_small ''port'')))"
  let ?baud = "scan_baudrate ?e scan_request_small"
  let ?lo = "fst (scan_bounds ?e scan_request_small)"
  let ?hi = "snd (scan_bounds ?e scan_request_small)"
  have h1: "truthy ?port" by code_simp
  have h2: "openPort ?e [] ?h" by code_simp
  have h3: "setBaudRate ?e ([] @ [OpenPort ?h]) ?h ?baud" by code_simp
  have no: "\<not> responds ?e t k i" for t k i
    by (simp add: responds_def bus_with_def bus_ok_def)
  have h4: "\<forall>i \<in> set [?lo..?hi]. \<not> responds ?e
              (([] @ [OpenPort ?h, SetBaudRate ?h ?baud]) @ map (Ping ?h) [?lo..i - 1]) ?h i"
    using no by blast
  have e2: "?h = com3" by code_simp
  have e3: "?baud = 57600" by code_simp
  have e8: "''No servos responded on '' @ str_jval ?port @ '' @ '' @ str_int ?baud
               @ '' in range '' @ str_int ?lo @ ''-'' @ str_int ?hi @ ''.'' =
            ''No servos responded on COM3 @ 57600 in range 2-4.''"
    by code_simp
  have e9: "Some (?port, ?baud, ?lo, ?hi) = Some (JStr ''COM3'', 57600, 2, 4)" by code_simp
  have c: "fst (handle_scan_servos ?e scan_request_small []) =
       [Scan_result True ''No servos responded on COM3 @ 57600 in range 2-4.'' []
          (Some (JStr ''COM3'', 57600, 2, 4))]"
    using empty_scan_is_a_success [OF h1 h2 h3 h4] unfolding e8 e9 .
  have g2: "openPort ?e [] com3" using h2 unfolding e2 .
  have g3: "setBaudRate ?e [OpenPort com3] com3 57600" using h3 unfolding e2 e3 by simp
  from h1 g2 g3 no c show ?thesis by (intro conjI)
qed

end
